theory Spec2Isabelle
  imports Main "HOL-Library.Word"
begin

unbundle bit_operations_syntax

section \<open>The IS31FL3733 single-colour LED driver (drivers/led/issi/is31fl3733-simple.c)\<close>

subsection \<open>Board configuration\<close>

type_synonym u8 = "8 word"

text \<open>
  Modelled from the spec: the struct \<open>is31_led\<close> is declared in the driver's header
  \<open>is31fl3733-simple.h\<close>, not in the driver file. The driver reads its two members \<open>led.driver\<close> and
  \<open>led.v\<close> (the device index and the register offset of section 3 of the specification);
  both are taken as bytes, since \<open>led.v / 8\<close> and \<open>led.v % 8\<close> are stored in \<open>uint8_t\<close>.
\<close>

record is31_led =
  driver :: u8
  v :: u8

text \<open>
  The constants \<open>LED_MATRIX_LED_COUNT\<close> and \<open>IS31FL3733_DRIVER_COUNT\<close> and the table
  \<open>g_is31_leds\<close> come from the board; they are parameters of every operation.
\<close>

record board =
  LED_MATRIX_LED_COUNT :: nat
  IS31FL3733_DRIVER_COUNT :: nat
  g_is31_leds :: "is31_led list"

text \<open>
  A board the driver compiles and runs for: the table has one entry for each logical LED,
  every entry names a device below the driver count and one of the 192 PWM registers, and the
  driver count is one of those for which \<open>g_led_control_registers\<close> is declared (lines 79-87).
\<close>

definition led_ok :: "board \<Rightarrow> is31_led \<Rightarrow> bool" where
  "led_ok b led = (unat (driver led) < IS31FL3733_DRIVER_COUNT b \<and> unat (v led) < 192)"

definition board_ok :: "board \<Rightarrow> bool" where
  "board_ok b =
     (length (g_is31_leds b) = LED_MATRIX_LED_COUNT b \<and>
      1 \<le> IS31FL3733_DRIVER_COUNT b \<and> IS31FL3733_DRIVER_COUNT b \<le> 4 \<and>
      list_all (led_ok b) (g_is31_leds b))"

text \<open>
  The driver's own constants (lines 26-48). The board's \<open>config.h\<close> defines neither
  \<open>IS31FL3733_I2C_TIMEOUT\<close> nor \<open>IS31FL3733_I2C_PERSISTENCE\<close>, so the defaults apply; with
  persistence 0 the preprocessor keeps the single transmission of each \<open>#else\<close> branch.
\<close>

definition IS31FL3733_COMMANDREGISTER :: u8 where
  "IS31FL3733_COMMANDREGISTER = 0xFD"

definition IS31FL3733_COMMANDREGISTER_WRITELOCK :: u8 where
  "IS31FL3733_COMMANDREGISTER_WRITELOCK = 0xFE"

definition IS31FL3733_PAGE_LEDCONTROL :: u8 where
  "IS31FL3733_PAGE_LEDCONTROL = 0x00"

definition IS31FL3733_PAGE_PWM :: u8 where
  "IS31FL3733_PAGE_PWM = 0x01"

definition IS31FL3733_I2C_TIMEOUT :: nat where
  "IS31FL3733_I2C_TIMEOUT = 100"

definition IS31FL3733_I2C_PERSISTENCE :: nat where
  "IS31FL3733_I2C_PERSISTENCE = 0"

subsection \<open>The transport and the driver's globals\<close>

text \<open>
  \<open>i2c_transmit\<close> is external. One call is the bus address, the bytes handed over and the
  timeout; the bus answers with a status, 0 for success. A bus is any function from the calls
  made so far (with their answers) and the present call to a status, so that a transport
  may fail at any call. The state keeps the trace of all calls.
\<close>

record i2c_call =
  i2c_address :: u8
  i2c_data :: "u8 list"
  i2c_timeout :: nat

type_synonym i2c_status = int

type_synonym i2c_trace = "(i2c_call \<times> i2c_status) list"

type_synonym i2c_bus = "i2c_trace \<Rightarrow> i2c_call \<Rightarrow> i2c_status"

record driver_state =
  g_twi_transfer_buffer :: "u8 list"
  g_pwm_buffer :: "u8 list list"
  g_pwm_buffer_update_required :: "bool list"
  g_led_control_registers :: "u8 list list"
  g_led_control_registers_update_required :: "bool list"
  i2c_log :: i2c_trace

text \<open>The arrays have the sizes of their declarations (lines 67-88).\<close>

definition state_wf :: "board \<Rightarrow> driver_state \<Rightarrow> bool" where
  "state_wf b s =
     (length (g_twi_transfer_buffer s) = 20 \<and>
      length (g_pwm_buffer s) = IS31FL3733_DRIVER_COUNT b \<and>
      list_all (\<lambda>row. length row = 192) (g_pwm_buffer s) \<and>
      length (g_pwm_buffer_update_required s) = IS31FL3733_DRIVER_COUNT b \<and>
      length (g_led_control_registers s) = IS31FL3733_DRIVER_COUNT b \<and>
      list_all (\<lambda>row. length row = 24) (g_led_control_registers s) \<and>
      length (g_led_control_registers_update_required s) = IS31FL3733_DRIVER_COUNT b)"

text \<open>The globals at startup: zero-initialised, no call made yet.\<close>

definition startup :: "board \<Rightarrow> driver_state" where
  "startup b =
     \<lparr>g_twi_transfer_buffer = replicate 20 0,
      g_pwm_buffer = replicate (IS31FL3733_DRIVER_COUNT b) (replicate 192 0),
      g_pwm_buffer_update_required = replicate (IS31FL3733_DRIVER_COUNT b) False,
      g_led_control_registers = replicate (IS31FL3733_DRIVER_COUNT b) (replicate 24 0),
      g_led_control_registers_update_required = replicate (IS31FL3733_DRIVER_COUNT b) False,
      i2c_log = []\<rparr>"

text \<open>
  Reading or writing an array outside its declaration is undefined in C; the model
  returns a fault there.
\<close>

datatype fault = Led_table_out_of_range | Driver_index_out_of_range | Register_out_of_range

definition i2c_transmit ::
  "i2c_bus \<Rightarrow> u8 \<Rightarrow> u8 list \<Rightarrow> nat \<Rightarrow> nat \<Rightarrow> driver_state \<Rightarrow> i2c_status \<times> driver_state" where
  "i2c_transmit bus address bytes len tmo s =
     (let c = \<lparr>i2c_address = address, i2c_data = take len bytes, i2c_timeout = tmo\<rparr>;
          st = bus (i2c_log s) c
      in (st, s\<lparr>i2c_log := i2c_log s @ [(c, st)]\<rparr>))"

text \<open>
  The loop of the \<open>IS31FL3733_I2C_PERSISTENCE > 0\<close> branch: \<open>n\<close> transmissions of the
  transfer buffer, stopping at the first failure. \<open>transmit_buffer\<close> is the \<open>#if\<close> block that
  \<open>is31fl3733_write_register\<close> and \<open>is31fl3733_write_pwm_buffer\<close> share.
\<close>

fun transmit_persistent ::
  "i2c_bus \<Rightarrow> nat \<Rightarrow> u8 \<Rightarrow> nat \<Rightarrow> driver_state \<Rightarrow> bool \<times> driver_state" where
  "transmit_persistent bus 0 addr len s = (True, s)"
| "transmit_persistent bus (Suc n) addr len s =
     (case i2c_transmit bus (push_bit 1 addr) (g_twi_transfer_buffer s) len IS31FL3733_I2C_TIMEOUT s of
        (st, s') \<Rightarrow> if st \<noteq> 0 then (False, s') else transmit_persistent bus n addr len s')"

definition transmit_buffer :: "i2c_bus \<Rightarrow> u8 \<Rightarrow> nat \<Rightarrow> driver_state \<Rightarrow> bool \<times> driver_state" where
  "transmit_buffer bus addr len s =
     (if 0 < IS31FL3733_I2C_PERSISTENCE
      then transmit_persistent bus IS31FL3733_I2C_PERSISTENCE addr len s
      else (case i2c_transmit bus (push_bit 1 addr) (g_twi_transfer_buffer s) len IS31FL3733_I2C_TIMEOUT s of
              (st, s') \<Rightarrow> if st \<noteq> 0 then (False, s') else (True, s')))"

definition is31fl3733_write_register ::
  "i2c_bus \<Rightarrow> u8 \<Rightarrow> u8 \<Rightarrow> u8 \<Rightarrow> driver_state \<Rightarrow> bool \<times> driver_state" where
  "is31fl3733_write_register bus addr reg data s =
     transmit_buffer bus addr 2
       (s\<lparr>g_twi_transfer_buffer := (g_twi_transfer_buffer s)[0 := reg, 1 := data]\<rparr>)"

text \<open>\<open>memcpy(dst + off, src + from, n)\<close> on arrays that hold the bytes copied.\<close>

definition memcpy_at :: "u8 list \<Rightarrow> nat \<Rightarrow> u8 list \<Rightarrow> nat \<Rightarrow> nat \<Rightarrow> u8 list" where
  "memcpy_at dst off src from n = take off dst @ take n (drop from src) @ drop (off + n) dst"

function write_pwm_buffer_from ::
  "i2c_bus \<Rightarrow> u8 \<Rightarrow> u8 list \<Rightarrow> nat \<Rightarrow> driver_state \<Rightarrow> bool \<times> driver_state" where
  "write_pwm_buffer_from bus addr pwm_buffer i s =
     (if i < 192 then
        (let s1 = s\<lparr>g_twi_transfer_buffer := (g_twi_transfer_buffer s)[0 := of_nat i]\<rparr>;
             s2 = s1\<lparr>g_twi_transfer_buffer := memcpy_at (g_twi_transfer_buffer s1) 1 pwm_buffer i 16\<rparr>
         in case transmit_buffer bus addr 17 s2 of
              (ok, s3) \<Rightarrow> if \<not> ok then (False, s3)
                          else write_pwm_buffer_from bus addr pwm_buffer (i + 16) s3)
      else (True, s))"
  by pat_completeness auto
termination
  by (relation "measure (\<lambda>(bus, addr, pwm_buffer, i, s). 192 - i)") auto

declare write_pwm_buffer_from.simps [simp del]

definition is31fl3733_write_pwm_buffer ::
  "i2c_bus \<Rightarrow> u8 \<Rightarrow> u8 list \<Rightarrow> driver_state \<Rightarrow> bool \<times> driver_state" where
  "is31fl3733_write_pwm_buffer bus addr pwm_buffer s = write_pwm_buffer_from bus addr pwm_buffer 0 s"

subsection \<open>Mutating the shadow buffers\<close>

definition led_at :: "board \<Rightarrow> nat \<Rightarrow> is31_led option" where
  "led_at b i = (if i < length (g_is31_leds b) then Some (g_is31_leds b ! i) else None)"

definition is31fl3733_set_value :: "board \<Rightarrow> int \<Rightarrow> u8 \<Rightarrow> driver_state \<Rightarrow> fault + driver_state" where
  "is31fl3733_set_value b index val s =
     (if index \<ge> 0 \<and> index < int (LED_MATRIX_LED_COUNT b) then
        (case led_at b (nat index) of
           None \<Rightarrow> Inl Led_table_out_of_range
         | Some led \<Rightarrow>
             let d = unat (driver led); r = unat (v led) in
             if \<not> d < IS31FL3733_DRIVER_COUNT b then Inl Driver_index_out_of_range
             else if \<not> r < 192 then Inl Register_out_of_range
             else if g_pwm_buffer s ! d ! r = val then Inr s
             else Inr (s\<lparr>g_pwm_buffer := (g_pwm_buffer s)[d := (g_pwm_buffer s ! d)[r := val]],
                         g_pwm_buffer_update_required := (g_pwm_buffer_update_required s)[d := True]\<rparr>))
      else Inr s)"

function set_value_all_from :: "board \<Rightarrow> u8 \<Rightarrow> nat \<Rightarrow> driver_state \<Rightarrow> fault + driver_state" where
  "set_value_all_from b val i s =
     (if i < LED_MATRIX_LED_COUNT b then
        (case is31fl3733_set_value b (int i) val s of
           Inl e \<Rightarrow> Inl e
         | Inr s' \<Rightarrow> set_value_all_from b val (i + 1) s')
      else Inr s)"
  by pat_completeness auto
termination
  by (relation "measure (\<lambda>(b, val, i, s). LED_MATRIX_LED_COUNT b - i)") auto

declare set_value_all_from.simps [simp del]

definition is31fl3733_set_value_all :: "board \<Rightarrow> u8 \<Rightarrow> driver_state \<Rightarrow> fault + driver_state" where
  "is31fl3733_set_value_all b val s = set_value_all_from b val 0 s"

definition is31fl3733_set_led_control_register ::
  "board \<Rightarrow> u8 \<Rightarrow> bool \<Rightarrow> driver_state \<Rightarrow> fault + driver_state" where
  "is31fl3733_set_led_control_register b index val s =
     (case led_at b (unat index) of
        None \<Rightarrow> Inl Led_table_out_of_range
      | Some led \<Rightarrow>
          let control_register = v led div 8;
              bit_value = v led mod 8;
              d = unat (driver led);
              r = unat control_register
          in
          if \<not> d < IS31FL3733_DRIVER_COUNT b then Inl Driver_index_out_of_range
          else if \<not> r < 24 then Inl Register_out_of_range
          else
            let old = g_led_control_registers s ! d ! r;
                new = (if val then old OR push_bit (unat bit_value) 1
                       else old AND NOT (push_bit (unat bit_value) 1))
            in Inr (s\<lparr>g_led_control_registers :=
                          (g_led_control_registers s)[d := (g_led_control_registers s ! d)[r := new]],
                        g_led_control_registers_update_required :=
                          (g_led_control_registers_update_required s)[d := True]\<rparr>))"

subsection \<open>Flushing the shadow buffers\<close>

definition is31fl3733_update_pwm_buffers ::
  "board \<Rightarrow> i2c_bus \<Rightarrow> u8 \<Rightarrow> u8 \<Rightarrow> driver_state \<Rightarrow> fault + driver_state" where
  "is31fl3733_update_pwm_buffers b bus addr index s =
     (let d = unat index in
      if \<not> d < IS31FL3733_DRIVER_COUNT b then Inl Driver_index_out_of_range
      else if g_pwm_buffer_update_required s ! d then
        (let s1 = snd (is31fl3733_write_register bus addr IS31FL3733_COMMANDREGISTER_WRITELOCK 0xC5 s);
             s2 = snd (is31fl3733_write_register bus addr IS31FL3733_COMMANDREGISTER IS31FL3733_PAGE_PWM s1);
             (ok, s3) = is31fl3733_write_pwm_buffer bus addr (g_pwm_buffer s2 ! d) s2;
             s4 = (if \<not> ok
                   then s3\<lparr>g_led_control_registers_update_required :=
                              (g_led_control_registers_update_required s3)[d := True]\<rparr>
                   else s3)
         in Inr (s4\<lparr>g_pwm_buffer_update_required := (g_pwm_buffer_update_required s4)[d := False]\<rparr>))
      else Inr s)"

function write_control_registers_from :: "i2c_bus \<Rightarrow> u8 \<Rightarrow> nat \<Rightarrow> nat \<Rightarrow> driver_state \<Rightarrow> driver_state" where
  "write_control_registers_from bus addr d i s =
     (if i < 24 then
        write_control_registers_from bus addr d (i + 1)
          (snd (is31fl3733_write_register bus addr (of_nat i) (g_led_control_registers s ! d ! i) s))
      else s)"
  by pat_completeness auto
termination
  by (relation "measure (\<lambda>(bus, addr, d, i, s). 24 - i)") auto

declare write_control_registers_from.simps [simp del]

definition is31fl3733_update_led_control_registers ::
  "board \<Rightarrow> i2c_bus \<Rightarrow> u8 \<Rightarrow> u8 \<Rightarrow> driver_state \<Rightarrow> fault + driver_state" where
  "is31fl3733_update_led_control_registers b bus addr index s =
     (let d = unat index in
      if \<not> d < IS31FL3733_DRIVER_COUNT b then Inl Driver_index_out_of_range
      else if g_led_control_registers_update_required s ! d then
        (let s1 = snd (is31fl3733_write_register bus addr IS31FL3733_COMMANDREGISTER_WRITELOCK 0xC5 s);
             s2 = snd (is31fl3733_write_register bus addr IS31FL3733_COMMANDREGISTER IS31FL3733_PAGE_LEDCONTROL s1);
             s3 = write_control_registers_from bus addr d 0 s2
         in Inr (s3\<lparr>g_led_control_registers_update_required :=
                       (g_led_control_registers_update_required s3)[d := False]\<rparr>))
      else Inr s)"

subsection \<open>Traces of bus calls\<close>

text \<open>
  The vocabulary in which the transport's behaviour is stated: the call the driver makes for a
  list of bytes, the trace after one more call, a run of calls that stops at the first failure
  and a run that ignores failures. The chunks of the PWM page and the writes of the control
  page are the lists of calls that section 4 of the specification describes.
\<close>

definition i2c_frame :: "u8 \<Rightarrow> u8 list \<Rightarrow> i2c_call" where
  "i2c_frame addr bytes =
     \<lparr>i2c_address = push_bit 1 addr, i2c_data = bytes, i2c_timeout = IS31FL3733_I2C_TIMEOUT\<rparr>"

definition append_call :: "i2c_bus \<Rightarrow> i2c_trace \<Rightarrow> i2c_call \<Rightarrow> i2c_trace" where
  "append_call bus tr c = tr @ [(c, bus tr c)]"

fun transmit_fail_fast :: "i2c_bus \<Rightarrow> i2c_trace \<Rightarrow> i2c_call list \<Rightarrow> bool \<times> i2c_trace" where
  "transmit_fail_fast bus tr [] = (True, tr)"
| "transmit_fail_fast bus tr (c # cs) =
     (if bus tr c \<noteq> 0 then (False, append_call bus tr c)
      else transmit_fail_fast bus (append_call bus tr c) cs)"

fun transmit_all :: "i2c_bus \<Rightarrow> i2c_trace \<Rightarrow> i2c_call list \<Rightarrow> i2c_trace" where
  "transmit_all bus tr [] = tr"
| "transmit_all bus tr (c # cs) = transmit_all bus (append_call bus tr c) cs"

definition pwm_chunk :: "u8 \<Rightarrow> u8 list \<Rightarrow> nat \<Rightarrow> i2c_call" where
  "pwm_chunk addr pwm_buffer k = i2c_frame addr (of_nat (16 * k) # take 16 (drop (16 * k) pwm_buffer))"

definition pwm_chunks :: "u8 \<Rightarrow> u8 list \<Rightarrow> i2c_call list" where
  "pwm_chunks addr pwm_buffer = map (pwm_chunk addr pwm_buffer) [0..<12]"

definition register_write :: "u8 \<Rightarrow> u8 \<Rightarrow> u8 \<Rightarrow> i2c_call" where
  "register_write addr reg data = i2c_frame addr [reg, data]"

definition control_writes :: "u8 \<Rightarrow> u8 list \<Rightarrow> i2c_call list" where
  "control_writes addr regs = map (\<lambda>i. register_write addr (of_nat i) (regs ! i)) [0..<24]"

text \<open>What a step added to the trace: the calls it made and the answers it got.\<close>

definition calls_since :: "driver_state \<Rightarrow> driver_state \<Rightarrow> i2c_call list" where
  "calls_since s s' = map fst (drop (length (i2c_log s)) (i2c_log s'))"


text \<open>A step that left the shadow buffers, the flags and the size of the transfer buffer alone.\<close>

definition shadow_unchanged :: "driver_state \<Rightarrow> driver_state \<Rightarrow> bool" where
  "shadow_unchanged s s' =
     (length (g_twi_transfer_buffer s') = length (g_twi_transfer_buffer s) \<and>
      g_pwm_buffer s' = g_pwm_buffer s \<and>
      g_pwm_buffer_update_required s' = g_pwm_buffer_update_required s \<and>
      g_led_control_registers s' = g_led_control_registers s \<and>
      g_led_control_registers_update_required s' = g_led_control_registers_update_required s)"

text \<open>
  The states in which the block write of a PWM flush and the register writes of a control
  flush start: after the unlock and the page selection, whose results the driver ignores.
\<close>

definition pwm_page_selected :: "i2c_bus \<Rightarrow> u8 \<Rightarrow> driver_state \<Rightarrow> driver_state" where
  "pwm_page_selected bus addr s =
     snd (is31fl3733_write_register bus addr IS31FL3733_COMMANDREGISTER IS31FL3733_PAGE_PWM
       (snd (is31fl3733_write_register bus addr IS31FL3733_COMMANDREGISTER_WRITELOCK 0xC5 s)))"

definition control_page_selected :: "i2c_bus \<Rightarrow> u8 \<Rightarrow> driver_state \<Rightarrow> driver_state" where
  "control_page_selected bus addr s =
     snd (is31fl3733_write_register bus addr IS31FL3733_COMMANDREGISTER IS31FL3733_PAGE_LEDCONTROL
       (snd (is31fl3733_write_register bus addr IS31FL3733_COMMANDREGISTER_WRITELOCK 0xC5 s)))"

subsection \<open>The pages confirmed written\<close>

text \<open>
  The driver keeps no record of what the devices hold; the trace of bus calls does. Following
  section 4.3 of the specification, a page counts as confirmed written for the device at a bus
  address when that address has acknowledged, one after the other, the unlock
  (\<open>0xFE := 0xC5\<close>), the selection of the page (\<open>0xFD := page\<close>) and the frames that carry the
  whole page: for the PWM page 12 frames of a register offset \<open>16 * k\<close> and 16 bytes, for the
  control page 24 frames of a register \<open>k\<close> and one byte. \<open>receive\<close> reads one frame addressed
  to the device and keeps how far such a run has come; a frame that was not acknowledged, or
  that does not continue the run, ends it and confirms nothing.
\<close>

datatype progress = Idle | Unlocked | Pwm_data nat "u8 list" | Control_data nat "u8 list"

record confirmed =
  confirmed_pwm :: "u8 list"
  confirmed_control :: "u8 list"
  run_so_far :: progress

definition idle :: "confirmed \<Rightarrow> confirmed" where
  "idle ch = ch\<lparr>run_so_far := Idle\<rparr>"

fun receive :: "confirmed \<Rightarrow> i2c_call \<times> i2c_status \<Rightarrow> confirmed" where
  "receive ch (c, st) =
     (if st \<noteq> 0 then idle ch
      else if i2c_data c = [IS31FL3733_COMMANDREGISTER_WRITELOCK, 0xC5] then ch\<lparr>run_so_far := Unlocked\<rparr>
      else
        (case run_so_far ch of
           Idle \<Rightarrow> idle ch
         | Unlocked \<Rightarrow>
             if i2c_data c = [IS31FL3733_COMMANDREGISTER, IS31FL3733_PAGE_PWM]
             then ch\<lparr>run_so_far := Pwm_data 0 []\<rparr>
             else if i2c_data c = [IS31FL3733_COMMANDREGISTER, IS31FL3733_PAGE_LEDCONTROL]
             then ch\<lparr>run_so_far := Control_data 0 []\<rparr>
             else idle ch
         | Pwm_data k acc \<Rightarrow>
             (case i2c_data c of
                [] \<Rightarrow> idle ch
              | r # bytes \<Rightarrow>
                  if unat r = 16 * k \<and> length bytes = 16
                  then (if k = 11 then ch\<lparr>confirmed_pwm := acc @ bytes, run_so_far := Idle\<rparr>
                        else ch\<lparr>run_so_far := Pwm_data (Suc k) (acc @ bytes)\<rparr>)
                  else idle ch)
         | Control_data k acc \<Rightarrow>
             (case i2c_data c of
                [r, x] \<Rightarrow>
                  if unat r = k
                  then (if k = 23 then ch\<lparr>confirmed_control := acc @ [x], run_so_far := Idle\<rparr>
                        else ch\<lparr>run_so_far := Control_data (Suc k) (acc @ [x])\<rparr>)
                  else idle ch
              | _ \<Rightarrow> idle ch)))"

text \<open>All-zero pages, as the initialisation (lines 151-164) writes them.\<close>

definition blank :: confirmed where
  "blank = \<lparr>confirmed_pwm = replicate 192 0, confirmed_control = replicate 24 0, run_so_far = Idle\<rparr>"

text \<open>
  The frames of a trace that went to the device a driver address names (the driver shifts the
  address left by one bit), and the pages they confirm.
\<close>

definition frames_to :: "u8 \<Rightarrow> i2c_trace \<Rightarrow> i2c_trace" where
  "frames_to addr tr = filter (\<lambda>e. i2c_address (fst e) = push_bit 1 addr) tr"

definition confirmed_at :: "u8 \<Rightarrow> i2c_trace \<Rightarrow> confirmed" where
  "confirmed_at addr tr = foldl receive blank (frames_to addr tr)"


datatype page = Pwm_page | Control_page

text \<open>
  The invariant of section 3 for one page of one device: a clear flag means the shadow buffer
  is the page confirmed.
\<close>

fun page_conservative :: "u8 list \<Rightarrow> page \<Rightarrow> nat \<Rightarrow> driver_state \<Rightarrow> bool" where
  "page_conservative addrs Pwm_page d s =
     (g_pwm_buffer s ! d \<noteq> confirmed_pwm (confirmed_at (addrs ! d) (i2c_log s)) \<longrightarrow>
        g_pwm_buffer_update_required s ! d)"
| "page_conservative addrs Control_page d s =
     (g_led_control_registers s ! d \<noteq> confirmed_control (confirmed_at (addrs ! d) (i2c_log s)) \<longrightarrow>
        g_led_control_registers_update_required s ! d)"

definition dirty_conservative :: "board \<Rightarrow> u8 list \<Rightarrow> driver_state \<Rightarrow> bool" where
  "dirty_conservative b addrs s =
     list_all (\<lambda>d. page_conservative addrs Pwm_page d s \<and> page_conservative addrs Control_page d s)
       [0..<IS31FL3733_DRIVER_COUNT b]"

text \<open>The operations a caller may run, and a sequence of them.\<close>

datatype operation =
    Set_value int u8
  | Set_value_all u8
  | Set_led_control_register u8 bool
  | Update_pwm_buffers u8 u8
  | Update_led_control_registers u8 u8

fun perform :: "board \<Rightarrow> i2c_bus \<Rightarrow> operation \<Rightarrow> driver_state \<Rightarrow> fault + driver_state" where
  "perform b bus (Set_value index val) s = is31fl3733_set_value b index val s"
| "perform b bus (Set_value_all val) s = is31fl3733_set_value_all b val s"
| "perform b bus (Set_led_control_register index en) s = is31fl3733_set_led_control_register b index en s"
| "perform b bus (Update_pwm_buffers addr index) s = is31fl3733_update_pwm_buffers b bus addr index s"
| "perform b bus (Update_led_control_registers addr index) s =
     is31fl3733_update_led_control_registers b bus addr index s"

fun perform_all :: "board \<Rightarrow> i2c_bus \<Rightarrow> operation list \<Rightarrow> driver_state \<Rightarrow> fault + driver_state" where
  "perform_all b bus [] s = Inr s"
| "perform_all b bus (x # xs) s =
     (case perform b bus x s of Inl e \<Rightarrow> Inl e | Inr s' \<Rightarrow> perform_all b bus xs s')"





definition conservative_after :: "board \<Rightarrow> u8 list \<Rightarrow> i2c_bus \<Rightarrow> operation list \<Rightarrow> driver_state \<Rightarrow> bool" where
  "conservative_after b addrs bus xs s =
     (case perform_all b bus xs s of Inl e \<Rightarrow> True | Inr s' \<Rightarrow> dirty_conservative b addrs s')"

subsection \<open>A board, buses and states for the examples\<close>

text \<open>
  Two devices and three LEDs; a bus that acknowledges every call and one that fails every
  call; the startup state with the PWM flag of device 0 set, with the control flag of
  device 1 set, and with every flag set; the bus addresses of the two devices.
\<close>

definition example_board :: board where
  "example_board =
     \<lparr>LED_MATRIX_LED_COUNT = 3, IS31FL3733_DRIVER_COUNT = 2,
      g_is31_leds = [\<lparr>driver = 0, v = 0\<rparr>, \<lparr>driver = 0, v = 0x25\<rparr>, \<lparr>driver = 1, v = 0x13\<rparr>]\<rparr>"

definition bus_ok :: i2c_bus where
  "bus_ok tr c = 0"

definition bus_dead :: i2c_bus where
  "bus_dead tr c = - 1"

definition dirty_example :: driver_state where
  "dirty_example = (startup example_board)\<lparr>g_pwm_buffer_update_required := [True, False]\<rparr>"

definition control_dirty_example :: driver_state where
  "control_dirty_example = (startup example_board)\<lparr>g_led_control_registers_update_required := [False, True]\<rparr>"

text \<open>The same board with a count of logical LEDs below the length of its table.\<close>

definition short_count_board :: board where
  "short_count_board = example_board\<lparr>LED_MATRIX_LED_COUNT := 2\<rparr>"


definition example_addresses :: "u8 list" where
  "example_addresses = [0x50, 0x53]"


section \<open>Properties\<close>

subsection \<open>The transport functions in terms of traces\<close>

lemma transmit_buffer_eq:
  "transmit_buffer bus addr len s =
     (bus (i2c_log s) (i2c_frame addr (take len (g_twi_transfer_buffer s))) = 0,
      s\<lparr>i2c_log := append_call bus (i2c_log s) (i2c_frame addr (take len (g_twi_transfer_buffer s)))\<rparr>)"
  by (simp add: transmit_buffer_def IS31FL3733_I2C_PERSISTENCE_def i2c_transmit_def Let_def
      i2c_frame_def append_call_def)

lemma take2_update:
  "2 \<le> length xs \<Longrightarrow> take 2 (xs[0 := a, Suc 0 := b]) = [a, b]"
  by (cases xs; cases "tl xs") auto

lemma write_register_eq:
  assumes "2 \<le> length (g_twi_transfer_buffer s)"
  shows "is31fl3733_write_register bus addr reg data s =
     (bus (i2c_log s) (register_write addr reg data) = 0,
      s\<lparr>g_twi_transfer_buffer := (g_twi_transfer_buffer s)[0 := reg, 1 := data],
        i2c_log := append_call bus (i2c_log s) (register_write addr reg data)\<rparr>)"
  using assms
  by (simp add: is31fl3733_write_register_def transmit_buffer_eq register_write_def take2_update)

lemma shadow_unchanged_refl [simp]: "shadow_unchanged s s"
  by (simp add: shadow_unchanged_def)

lemma shadow_unchanged_trans:
  "shadow_unchanged s s' \<Longrightarrow> shadow_unchanged s' s'' \<Longrightarrow> shadow_unchanged s s''"
  by (simp add: shadow_unchanged_def)

lemma write_register_shadow: "shadow_unchanged s (snd (is31fl3733_write_register bus addr reg data s))"
  by (simp add: is31fl3733_write_register_def transmit_buffer_eq shadow_unchanged_def)

lemma take17_chunk:
  assumes "17 \<le> length tw" "i + 16 \<le> length buf"
  shows "take 17 (memcpy_at (tw[0 := a]) 1 buf i 16) = a # take 16 (drop i buf)"
proof -
  obtain x xs where tw: "tw = x # xs" using assms(1) by (cases tw) auto
  show ?thesis using assms by (simp add: memcpy_at_def tw)
qed

lemma length_memcpy_at:
  "off + n \<le> length dst \<Longrightarrow> from + n \<le> length src \<Longrightarrow> length (memcpy_at dst off src from n) = length dst"
  by (simp add: memcpy_at_def)

lemma write_pwm_buffer_from_trace:
  assumes "length (g_twi_transfer_buffer s) = 20" "length buf = 192" "k \<le> 12"
  shows "fst (write_pwm_buffer_from bus addr buf (16 * k) s) =
           fst (transmit_fail_fast bus (i2c_log s) (map (pwm_chunk addr buf) [k..<12])) \<and>
         i2c_log (snd (write_pwm_buffer_from bus addr buf (16 * k) s)) =
           snd (transmit_fail_fast bus (i2c_log s) (map (pwm_chunk addr buf) [k..<12])) \<and>
         shadow_unchanged s (snd (write_pwm_buffer_from bus addr buf (16 * k) s))"
  using assms
proof (induction "12 - k" arbitrary: k s)
  case 0
  then have "k = 12" by simp
  then show ?case by (simp add: write_pwm_buffer_from.simps)
next
  case (Suc n)
  then have k: "k < 12" by simp
  define s2 where "s2 = s\<lparr>g_twi_transfer_buffer :=
       memcpy_at ((g_twi_transfer_buffer s)[0 := of_nat (16 * k)]) 1 buf (16 * k) 16\<rparr>"
  define c where "c = pwm_chunk addr buf k"
  define s3 where "s3 = s2\<lparr>i2c_log := append_call bus (i2c_log s) c\<rparr>"
  have tk: "take 17 (g_twi_transfer_buffer s2) = of_nat (16 * k) # take 16 (drop (16 * k) buf)"
    unfolding s2_def using Suc.prems k
      take17_chunk[of "g_twi_transfer_buffer s" "16 * k" buf "of_nat (16 * k)"] by simp
  have tb: "transmit_buffer bus addr 17 s2 = (bus (i2c_log s) c = 0, s3)"
    by (simp add: transmit_buffer_eq tk s3_def c_def pwm_chunk_def) (simp add: s2_def)
  have len3: "length (g_twi_transfer_buffer s3) = 20"
    unfolding s3_def s2_def using Suc.prems k by (simp add: length_memcpy_at)
  have sh: "shadow_unchanged s s3"
    using len3 Suc.prems by (simp add: shadow_unchanged_def) (simp add: s3_def s2_def)
  have unfold: "write_pwm_buffer_from bus addr buf (16 * k) s =
      (if bus (i2c_log s) c \<noteq> 0 then (False, s3) else write_pwm_buffer_from bus addr buf (16 * Suc k) s3)"
    using k tb by (subst write_pwm_buffer_from.simps) (simp add: Let_def s2_def add.commute)
  have upt: "[k..<12] = k # [Suc k..<12]" using k by (simp add: upt_conv_Cons)
  show ?case
  proof (cases "bus (i2c_log s) c = 0")
    case False
    then show ?thesis using sh by (simp add: unfold upt c_def) (simp add: s3_def c_def)
  next
    case True
    have "12 - Suc k = n" using Suc.hyps by simp
    from Suc.hyps(1)[of "Suc k" s3] this len3 Suc.prems k
    have IH: "fst (write_pwm_buffer_from bus addr buf (16 * Suc k) s3) =
           fst (transmit_fail_fast bus (i2c_log s3) (map (pwm_chunk addr buf) [Suc k..<12])) \<and>
         i2c_log (snd (write_pwm_buffer_from bus addr buf (16 * Suc k) s3)) =
           snd (transmit_fail_fast bus (i2c_log s3) (map (pwm_chunk addr buf) [Suc k..<12])) \<and>
         shadow_unchanged s3 (snd (write_pwm_buffer_from bus addr buf (16 * Suc k) s3))"
      by simp
    have l3: "i2c_log s3 = append_call bus (i2c_log s) c" by (simp add: s3_def)
    show ?thesis using True IH sh
      by (auto simp add: unfold upt c_def l3 intro: shadow_unchanged_trans)
  qed
qed

lemma write_control_registers_from_trace:
  assumes "2 \<le> length (g_twi_transfer_buffer s)" "i \<le> 24"
  shows "i2c_log (write_control_registers_from bus addr d i s) =
           transmit_all bus (i2c_log s)
             (map (\<lambda>i. register_write addr (of_nat i) (g_led_control_registers s ! d ! i)) [i..<24]) \<and>
         shadow_unchanged s (write_control_registers_from bus addr d i s)"
  using assms
proof (induction "24 - i" arbitrary: i s)
  case 0
  then have "i = 24" by simp
  then show ?case by (simp add: write_control_registers_from.simps)
next
  case (Suc n)
  then have i: "i < 24" by simp
  define c where "c = register_write addr (of_nat i) (g_led_control_registers s ! d ! i)"
  define s1 where "s1 = snd (is31fl3733_write_register bus addr (of_nat i) (g_led_control_registers s ! d ! i) s)"
  have sh: "shadow_unchanged s s1"
    unfolding s1_def by (rule write_register_shadow)
  have l1: "i2c_log s1 = append_call bus (i2c_log s) c"
    unfolding s1_def c_def using Suc.prems by (simp add: write_register_eq)
  have len1: "2 \<le> length (g_twi_transfer_buffer s1)"
    using sh Suc.prems by (simp add: shadow_unchanged_def)
  have regs: "g_led_control_registers s1 = g_led_control_registers s"
    using sh by (simp add: shadow_unchanged_def)
  have unfold: "write_control_registers_from bus addr d i s = write_control_registers_from bus addr d (Suc i) s1"
    using i by (subst write_control_registers_from.simps) (simp add: s1_def)
  have upt: "[i..<24] = i # [Suc i..<24]" using i by (simp add: upt_conv_Cons)
  have "24 - Suc i = n" using Suc.hyps by simp
  from Suc.hyps(1)[of "Suc i" s1] this len1 i
  have IH: "i2c_log (write_control_registers_from bus addr d (Suc i) s1) =
           transmit_all bus (i2c_log s1)
             (map (\<lambda>i. register_write addr (of_nat i) (g_led_control_registers s1 ! d ! i)) [Suc i..<24]) \<and>
         shadow_unchanged s1 (write_control_registers_from bus addr d (Suc i) s1)"
    by simp
  show ?case using IH sh
    by (auto simp add: unfold upt l1 regs c_def intro: shadow_unchanged_trans)
qed

lemma write_pwm_buffer_trace:
  assumes "length (g_twi_transfer_buffer s) = 20" "length buf = 192"
  shows "fst (is31fl3733_write_pwm_buffer bus addr buf s) =
           fst (transmit_fail_fast bus (i2c_log s) (pwm_chunks addr buf))"
    and "i2c_log (snd (is31fl3733_write_pwm_buffer bus addr buf s)) =
           snd (transmit_fail_fast bus (i2c_log s) (pwm_chunks addr buf))"
    and "shadow_unchanged s (snd (is31fl3733_write_pwm_buffer bus addr buf s))"
  using write_pwm_buffer_from_trace[OF assms, of 0 bus addr]
  by (simp_all add: is31fl3733_write_pwm_buffer_def pwm_chunks_def)

lemma state_wf_shadow:
  "state_wf b s \<Longrightarrow> shadow_unchanged s s' \<Longrightarrow> state_wf b s'"
  by (simp add: state_wf_def shadow_unchanged_def)

lemma state_wf_row:
  "state_wf b s \<Longrightarrow> d < IS31FL3733_DRIVER_COUNT b \<Longrightarrow> length (g_pwm_buffer s ! d) = 192"
  by (simp add: state_wf_def list_all_length)

lemma state_wf_control_row:
  "state_wf b s \<Longrightarrow> d < IS31FL3733_DRIVER_COUNT b \<Longrightarrow> length (g_led_control_registers s ! d) = 24"
  by (simp add: state_wf_def list_all_length)

lemma pwm_page_selected_shadow: "shadow_unchanged s (pwm_page_selected bus addr s)"
  unfolding pwm_page_selected_def
  by (rule shadow_unchanged_trans[OF write_register_shadow write_register_shadow])

lemma update_pwm_buffers_dirty:
  assumes "state_wf b s" "unat index < IS31FL3733_DRIVER_COUNT b"
    "g_pwm_buffer_update_required s ! unat index"
  shows "\<exists>s'. is31fl3733_update_pwm_buffers b bus addr index s = Inr s' \<and>
           \<not> g_pwm_buffer_update_required s' ! unat index \<and>
           g_led_control_registers_update_required s' =
             (if fst (is31fl3733_write_pwm_buffer bus addr (g_pwm_buffer s ! unat index) (pwm_page_selected bus addr s))
              then g_led_control_registers_update_required s
              else (g_led_control_registers_update_required s)[unat index := True]) \<and>
           g_pwm_buffer s' = g_pwm_buffer s \<and>
           g_led_control_registers s' = g_led_control_registers s \<and>
           g_pwm_buffer_update_required s' = (g_pwm_buffer_update_required s)[unat index := False] \<and>
           length (g_twi_transfer_buffer s') = 20 \<and>
           i2c_log s' = i2c_log (snd (is31fl3733_write_pwm_buffer bus addr (g_pwm_buffer s ! unat index)
                                   (pwm_page_selected bus addr s)))"
proof -
  define s2 where "s2 = pwm_page_selected bus addr s"
  define r where "r = is31fl3733_write_pwm_buffer bus addr (g_pwm_buffer s ! unat index) s2"
  have sh2: "shadow_unchanged s s2" unfolding s2_def by (rule pwm_page_selected_shadow)
  have wf2: "state_wf b s2" using assms(1) sh2 by (rule state_wf_shadow)
  have buf: "g_pwm_buffer s2 = g_pwm_buffer s" using sh2 by (simp add: shadow_unchanged_def)
  have sh3: "shadow_unchanged s2 (snd r)"
    unfolding r_def using wf2 assms(1,2)
    by (intro write_pwm_buffer_trace(3)) (simp_all add: state_wf_def list_all_length)
  have sh: "shadow_unchanged s (snd r)" using sh2 sh3 by (rule shadow_unchanged_trans)
  have eq: "is31fl3733_update_pwm_buffers b bus addr index s =
     Inr ((if \<not> fst r then (snd r)\<lparr>g_led_control_registers_update_required :=
                              (g_led_control_registers_update_required (snd r))[unat index := True]\<rparr>
           else snd r)\<lparr>g_pwm_buffer_update_required :=
             (g_pwm_buffer_update_required (if \<not> fst r then (snd r)\<lparr>g_led_control_registers_update_required :=
                              (g_led_control_registers_update_required (snd r))[unat index := True]\<rparr>
           else snd r))[unat index := False]\<rparr>)"
    using assms(2,3) buf
    by (simp add: is31fl3733_update_pwm_buffers_def Let_def split_beta r_def s2_def pwm_page_selected_def)
  have len: "unat index < length (g_pwm_buffer_update_required s)"
    using assms(1,2) by (simp add: state_wf_def)
  have tw: "length (g_twi_transfer_buffer (snd r)) = 20"
    using sh assms(1) by (simp add: shadow_unchanged_def state_wf_def)
  show ?thesis
    using sh len tw unfolding eq
    by (auto simp add: shadow_unchanged_def r_def[symmetric] s2_def[symmetric])
qed

subsection \<open>Setting a PWM value\<close>

lemma example_board_ok: "board_ok example_board"
  by (simp add: board_ok_def example_board_def led_ok_def)

lemma startup_wf: "state_wf b (startup b)"
  by (simp add: state_wf_def startup_def list_all_length)

lemma led_at_in_range:
  assumes "board_ok b" "i < LED_MATRIX_LED_COUNT b"
  shows "led_at b i = Some (g_is31_leds b ! i)"
    and "unat (driver (g_is31_leds b ! i)) < IS31FL3733_DRIVER_COUNT b"
    and "unat (v (g_is31_leds b ! i)) < 192"
  using assms by (simp_all add: board_ok_def led_at_def list_all_length led_ok_def)

lemma set_value_in_range:
  assumes "board_ok b" "0 \<le> i" "i < int (LED_MATRIX_LED_COUNT b)"
  shows "is31fl3733_set_value b i val s =
     (let d = unat (driver (g_is31_leds b ! nat i)); r = unat (v (g_is31_leds b ! nat i))
      in if g_pwm_buffer s ! d ! r = val then Inr s
         else Inr (s\<lparr>g_pwm_buffer := (g_pwm_buffer s)[d := (g_pwm_buffer s ! d)[r := val]],
                     g_pwm_buffer_update_required := (g_pwm_buffer_update_required s)[d := True]\<rparr>))"
proof -
  have n: "nat i < LED_MATRIX_LED_COUNT b" using assms(2,3) by simp
  show ?thesis
    using assms(2,3) led_at_in_range[OF assms(1) n]
    by (simp add: is31fl3733_set_value_def Let_def)
qed

text \<open>
  Claim C6. For every logical index outside \<open>[0, LED_MATRIX_LED_COUNT)\<close> and every value,
  \<open>is31fl3733_set_value\<close> is a silent no-op: it returns the state it was given, so the PWM
  and control shadow buffers and both dirty flags of every device are unchanged.
\<close>
theorem set_value_out_of_range:
  "index < 0 \<or> int (LED_MATRIX_LED_COUNT b) \<le> index \<Longrightarrow> is31fl3733_set_value b index val s = Inr s"
  by (auto simp add: is31fl3733_set_value_def)

theorem set_value_out_of_range_witness:
  "is31fl3733_set_value example_board 3 128 (startup example_board) = Inr (startup example_board) \<and>
   is31fl3733_set_value example_board (- 1) 128 (startup example_board) = Inr (startup example_board)"
  using set_value_out_of_range[of 3 example_board 128 "startup example_board"]
    set_value_out_of_range[of "- 1" example_board 128 "startup example_board"]
  by (simp add: example_board_def)

lemma set_value_slot:
  assumes "board_ok b" "state_wf b s" "0 \<le> i" "i < int (LED_MATRIX_LED_COUNT b)"
  shows "\<exists>s'. is31fl3733_set_value b i val s = Inr s' \<and>
           g_pwm_buffer s' ! unat (driver (g_is31_leds b ! nat i)) ! unat (v (g_is31_leds b ! nat i)) = val"
proof -
  have n: "nat i < LED_MATRIX_LED_COUNT b" using assms(3,4) by simp
  note led = led_at_in_range[OF assms(1) n]
  have "unat (driver (g_is31_leds b ! nat i)) < length (g_pwm_buffer s)"
    using led(2) assms(2) by (simp add: state_wf_def)
  moreover have "unat (v (g_is31_leds b ! nat i)) < length (g_pwm_buffer s ! unat (driver (g_is31_leds b ! nat i)))"
    using led(2,3) assms(2) by (simp add: state_wf_row)
  ultimately show ?thesis
    by (simp add: set_value_in_range[OF assms(1,3,4)] Let_def)
qed

text \<open>
  Claim C4. For every logical index \<open>i\<close> in \<open>[0, LED_MATRIX_LED_COUNT)\<close> and every byte
  \<open>val\<close>, \<open>is31fl3733_set_value b i val\<close> returns a state whose PWM shadow buffer holds
  \<open>val\<close> at the device and register offset that the table \<open>g_is31_leds\<close> gives for \<open>i\<close>.
\<close>
theorem set_value_stores:
  assumes "board_ok b" "state_wf b s" "0 \<le> i" "i < int (LED_MATRIX_LED_COUNT b)"
  shows "\<exists>s'. is31fl3733_set_value b i val s = Inr s' \<and>
           g_pwm_buffer s' ! unat (driver (g_is31_leds b ! nat i)) ! unat (v (g_is31_leds b ! nat i)) = val"
proof -
  have n: "nat i < LED_MATRIX_LED_COUNT b" using assms(3,4) by simp
  note led = led_at_in_range[OF assms(1) n]
  have "unat (driver (g_is31_leds b ! nat i)) < length (g_pwm_buffer s)"
    using led(2) assms(2) by (simp add: state_wf_def)
  moreover have "unat (v (g_is31_leds b ! nat i)) < length (g_pwm_buffer s ! unat (driver (g_is31_leds b ! nat i)))"
    using led(2,3) assms(2) by (simp add: state_wf_row)
  ultimately show ?thesis
    by (simp add: set_value_in_range[OF assms(1,3,4)] Let_def)
qed

theorem set_value_stores_witness:
  "\<exists>s'. is31fl3733_set_value example_board 2 77 (startup example_board) = Inr s' \<and>
           g_pwm_buffer s' ! 1 ! 19 = 77"
  using set_value_stores[OF example_board_ok startup_wf, of 2 77]
  by (simp add: example_board_def)

text \<open>
  Claim C5. \<open>is31fl3733_set_value\<close> is a no-op on an unchanged value: for an index in range,
  if the slot the table resolves it to already holds \<open>val\<close>, the state is returned as it was
  (no buffer and no flag changes); and a second call with the same arguments returns the state
  the first call returned, so the PWM dirty flag is as one call leaves it and a flag that was
  clear before the second call stays clear.
\<close>
theorem set_value_idempotent:
  assumes "board_ok b" "state_wf b s" "0 \<le> i" "i < int (LED_MATRIX_LED_COUNT b)"
  shows "(g_pwm_buffer s ! unat (driver (g_is31_leds b ! nat i)) ! unat (v (g_is31_leds b ! nat i)) = val
            \<longrightarrow> is31fl3733_set_value b i val s = Inr s) \<and>
         (\<exists>s1. is31fl3733_set_value b i val s = Inr s1 \<and> is31fl3733_set_value b i val s1 = Inr s1)"
proof -
  obtain s1 where s1: "is31fl3733_set_value b i val s = Inr s1"
    and st: "g_pwm_buffer s1 ! unat (driver (g_is31_leds b ! nat i)) ! unat (v (g_is31_leds b ! nat i)) = val"
    using set_value_slot[OF assms] by blast
  have "is31fl3733_set_value b i val s1 = Inr s1"
    using st by (simp add: set_value_in_range[OF assms(1,3,4)] Let_def)
  moreover have "g_pwm_buffer s ! unat (driver (g_is31_leds b ! nat i)) ! unat (v (g_is31_leds b ! nat i)) = val
            \<longrightarrow> is31fl3733_set_value b i val s = Inr s"
    by (simp add: set_value_in_range[OF assms(1,3,4)] Let_def)
  ultimately show ?thesis using s1 by blast
qed

theorem set_value_idempotent_witness:
  "is31fl3733_set_value example_board 1 0 (startup example_board) = Inr (startup example_board) \<and>
   (\<exists>s1. is31fl3733_set_value example_board 1 9 (startup example_board) = Inr s1 \<and>
         is31fl3733_set_value example_board 1 9 s1 = Inr s1)"
proof -
  have "g_pwm_buffer (startup example_board) ! unat (driver (g_is31_leds example_board ! nat 1)) !
          unat (v (g_is31_leds example_board ! nat 1)) = 0"
    by (simp add: example_board_def startup_def)
  then show ?thesis
    using set_value_idempotent[OF example_board_ok startup_wf, of 1 0]
      set_value_idempotent[OF example_board_ok startup_wf, of 1 9]
    by (simp add: example_board_def)
qed

subsection \<open>Flushing the PWM page\<close>

lemma transmit_fail_fast_dead:
  "cs \<noteq> [] \<Longrightarrow> \<not> fst (transmit_fail_fast bus_dead tr cs)"
  by (cases cs) (simp_all add: bus_dead_def)

lemma pwm_chunks_nonempty: "pwm_chunks addr buf \<noteq> []"
  by (simp add: pwm_chunks_def)

lemma pwm_page_selected_wf: "state_wf b s \<Longrightarrow> state_wf b (pwm_page_selected bus addr s)"
  by (rule state_wf_shadow[OF _ pwm_page_selected_shadow])

lemma write_pwm_buffer_dead:
  assumes "state_wf b s" "d < IS31FL3733_DRIVER_COUNT b"
  shows "\<not> fst (is31fl3733_write_pwm_buffer bus_dead addr (g_pwm_buffer s ! d) (pwm_page_selected bus addr s))"
proof -
  have "length (g_twi_transfer_buffer (pwm_page_selected bus addr s)) = 20"
    using pwm_page_selected_wf[OF assms(1)] by (simp add: state_wf_def)
  moreover have "length (g_pwm_buffer s ! d) = 192"
    using assms by (rule state_wf_row)
  ultimately show ?thesis
    by (simp add: write_pwm_buffer_trace(1) transmit_fail_fast_dead pwm_chunks_nonempty)
qed

text \<open>
  Claim C2. For every device index below the driver count: when
  \<open>is31fl3733_update_pwm_buffers\<close> runs with the PWM dirty flag of that device set and the
  block write of the PWM buffer (\<open>is31fl3733_write_pwm_buffer\<close>, called once the unlock and
  the page selection are done) fails, then afterwards the control dirty flag of that device is
  true and its PWM dirty flag is false.
\<close>
theorem flush_pwm_failed_block_write:
  assumes "state_wf b s" "unat index < IS31FL3733_DRIVER_COUNT b"
    "g_pwm_buffer_update_required s ! unat index"
    "\<not> fst (is31fl3733_write_pwm_buffer bus addr (g_pwm_buffer s ! unat index) (pwm_page_selected bus addr s))"
  shows "\<exists>s'. is31fl3733_update_pwm_buffers b bus addr index s = Inr s' \<and>
           g_led_control_registers_update_required s' ! unat index \<and>
           \<not> g_pwm_buffer_update_required s' ! unat index"
proof -
  have "unat index < length (g_led_control_registers_update_required s)"
    using assms(1,2) by (simp add: state_wf_def)
  then show ?thesis
    using update_pwm_buffers_dirty[OF assms(1-3), of bus addr] assms(4) by auto
qed

lemma dirty_example_wf: "state_wf example_board dirty_example"
  by (simp add: state_wf_def dirty_example_def startup_def example_board_def list_all_length)

theorem flush_pwm_failed_block_write_witness:
  "\<exists>s'. is31fl3733_update_pwm_buffers example_board bus_dead 0x50 0 dirty_example = Inr s' \<and>
           g_led_control_registers_update_required s' ! 0 \<and>
           \<not> g_pwm_buffer_update_required s' ! 0"
proof -
  have d: "unat (0 :: u8) < IS31FL3733_DRIVER_COUNT example_board"
    by (simp add: example_board_def)
  have f: "g_pwm_buffer_update_required dirty_example ! unat (0 :: u8)"
    by (simp add: dirty_example_def)
  show ?thesis
    using flush_pwm_failed_block_write[OF dirty_example_wf d f write_pwm_buffer_dead[OF dirty_example_wf d]]
    by simp
qed

text \<open>
  Claim C3. For every device index below the driver count: after
  \<open>is31fl3733_update_pwm_buffers\<close> has run on a transport that always succeeds, the PWM dirty
  flag of that device is false; and when it is called while that flag is already false it
  returns the state it was given, the trace of transport calls included, so that no transport
  call is made.
\<close>
lemma transmit_fail_fast_ok:
  "\<forall>tr c. bus tr c = 0 \<Longrightarrow> fst (transmit_fail_fast bus tr cs)"
  by (induction cs arbitrary: tr) simp_all

theorem flush_pwm_clears_or_skips:
  assumes "state_wf b s" "unat index < IS31FL3733_DRIVER_COUNT b"
  shows "((\<forall>tr c. bus tr c = 0) \<longrightarrow>
            (\<exists>s'. is31fl3733_update_pwm_buffers b bus addr index s = Inr s' \<and>
                  \<not> g_pwm_buffer_update_required s' ! unat index)) \<and>
         (\<not> g_pwm_buffer_update_required s ! unat index \<longrightarrow>
            is31fl3733_update_pwm_buffers b bus addr index s = Inr s)"
proof (cases "g_pwm_buffer_update_required s ! unat index")
  case True
  then show ?thesis using update_pwm_buffers_dirty[OF assms True, of bus addr] by auto
next
  case False
  then show ?thesis using assms(2) by (simp add: is31fl3733_update_pwm_buffers_def)
qed

theorem flush_pwm_clears_or_skips_witness:
  "(\<exists>s'. is31fl3733_update_pwm_buffers example_board bus_ok 0x50 0 dirty_example = Inr s' \<and>
          \<not> g_pwm_buffer_update_required s' ! 0) \<and>
   is31fl3733_update_pwm_buffers example_board bus_ok 0x50 1 dirty_example = Inr dirty_example \<and>
   i2c_log dirty_example = []"
proof -
  have d: "unat (0 :: u8) < IS31FL3733_DRIVER_COUNT example_board"
    "unat (1 :: u8) < IS31FL3733_DRIVER_COUNT example_board"
    by (simp_all add: example_board_def)
  have f: "\<not> g_pwm_buffer_update_required dirty_example ! unat (1 :: u8)"
    by (simp add: dirty_example_def)
  have ok: "\<forall>tr c. bus_ok tr c = 0" by (simp add: bus_ok_def)
  show ?thesis
    using flush_pwm_clears_or_skips[OF dirty_example_wf d(1), where bus = bus_ok and addr = "0x50"]
      flush_pwm_clears_or_skips[OF dirty_example_wf d(2), where bus = bus_ok and addr = "0x50"] f ok
    by (simp add: dirty_example_def startup_def)
qed

subsection \<open>Setting a control bit\<close>

lemma control_bit_set:
  fixes old :: u8
  assumes "n < 8"
  shows "bit (old OR push_bit n 1) m = (if m = n then True else bit old m)"
  using assms by (auto simp add: bit_simps)

lemma control_bit_clear:
  fixes old :: u8
  assumes "n < 8"
  shows "bit (old AND NOT (push_bit n 1)) m = (if m = n then False else bit old m)"
  using assms bit_imp_le_length[of old m] by (auto simp add: bit_simps)

lemma set_led_control_register_in_range:
  assumes "board_ok b" "unat index < LED_MATRIX_LED_COUNT b"
  shows "is31fl3733_set_led_control_register b index en s =
     (let d = unat (driver (g_is31_leds b ! unat index));
          r = unat (v (g_is31_leds b ! unat index)) div 8;
          n = unat (v (g_is31_leds b ! unat index)) mod 8;
          old = g_led_control_registers s ! d ! r
      in Inr (s\<lparr>g_led_control_registers :=
                   (g_led_control_registers s)[d := (g_led_control_registers s ! d)
                      [r := (if en then old OR push_bit n 1 else old AND NOT (push_bit n 1))]],
                 g_led_control_registers_update_required :=
                   (g_led_control_registers_update_required s)[d := True]\<rparr>))"
proof -
  note led = led_at_in_range[OF assms]
  have r: "unat (v (g_is31_leds b ! unat index) div 8) = unat (v (g_is31_leds b ! unat index)) div 8"
    by (simp add: unat_div)
  have n: "unat (v (g_is31_leds b ! unat index) mod 8) = unat (v (g_is31_leds b ! unat index)) mod 8"
    by (simp add: unat_mod)
  have "unat (v (g_is31_leds b ! unat index)) div 8 < 24" using led(3) by simp
  then show ?thesis
    using led(1,2) by (simp add: is31fl3733_set_led_control_register_def Let_def r n)
qed

text \<open>
  Claim C7. For every logical index below \<open>LED_MATRIX_LED_COUNT\<close> and every boolean \<open>en\<close>,
  \<open>is31fl3733_set_led_control_register\<close> gives bit \<open>v mod 8\<close> of byte \<open>v div 8\<close> of the
  resolved device's control shadow buffer the value \<open>en\<close>, leaves every other bit of that byte
  and every other byte as it was, and sets the control dirty flag of that device whether or not
  the bit changed: a second call with the same arguments changes no register and leaves the flag
  set again.
\<close>
theorem set_led_control_register_bit:
  assumes "board_ok b" "state_wf b s" "unat index < LED_MATRIX_LED_COUNT b"
  shows "\<exists>s' s''.
           is31fl3733_set_led_control_register b index en s = Inr s' \<and>
           is31fl3733_set_led_control_register b index en s' = Inr s'' \<and>
           (let d = unat (driver (g_is31_leds b ! unat index));
                r = unat (v (g_is31_leds b ! unat index)) div 8;
                n = unat (v (g_is31_leds b ! unat index)) mod 8
            in (\<forall>m. bit (g_led_control_registers s' ! d ! r) m =
                      (if m = n then en else bit (g_led_control_registers s ! d ! r) m)) \<and>
               (\<forall>d' r'. (d', r') \<noteq> (d, r) \<longrightarrow>
                      g_led_control_registers s' ! d' ! r' = g_led_control_registers s ! d' ! r') \<and>
               g_led_control_registers_update_required s' ! d \<and>
               g_led_control_registers_update_required s'' ! d \<and>
               g_led_control_registers s'' = g_led_control_registers s')"
proof -
  define d where "d = unat (driver (g_is31_leds b ! unat index))"
  define r where "r = unat (v (g_is31_leds b ! unat index)) div 8"
  define n where "n = unat (v (g_is31_leds b ! unat index)) mod 8"
  define new where "new = (\<lambda>old :: u8. if en then old OR push_bit n 1 else old AND NOT (push_bit n 1))"
  define upd where "upd = (\<lambda>t :: driver_state. t\<lparr>g_led_control_registers :=
                   (g_led_control_registers t)[d := (g_led_control_registers t ! d)
                      [r := new (g_led_control_registers t ! d ! r)]],
                 g_led_control_registers_update_required :=
                   (g_led_control_registers_update_required t)[d := True]\<rparr>)"
  note led = led_at_in_range[OF assms(1,3)]
  have step: "is31fl3733_set_led_control_register b index en t = Inr (upd t)" for t
    by (simp add: set_led_control_register_in_range[OF assms(1,3)] Let_def upd_def new_def d_def r_def n_def)
  have n8: "n < 8" by (simp add: n_def)
  have dlen: "d < length (g_led_control_registers s)" "d < length (g_led_control_registers_update_required s)"
    using led(2) assms(2) by (simp_all add: state_wf_def d_def)
  have rlen: "r < length (g_led_control_registers s ! d)"
    using led(2,3) state_wf_control_row[OF assms(2), of d] by (simp add: d_def r_def)
  have bits: "bit (new old) m = (if m = n then en else bit old m)" for old m
    by (cases en) (simp_all only: new_def if_True if_False control_bit_set[OF n8] control_bit_clear[OF n8])
  have idem: "new (new old) = new old" for old
    by (rule bit_eqI) (simp add: bits)
  have slot: "g_led_control_registers (upd s) ! d ! r = new (g_led_control_registers s ! d ! r)"
    using dlen rlen by (simp add: upd_def)
  have other: "(d', r') \<noteq> (d, r) \<Longrightarrow>
      g_led_control_registers (upd s) ! d' ! r' = g_led_control_registers s ! d' ! r'" for d' r'
    using dlen rlen by (cases "d' = d") (auto simp add: upd_def)
  have flag1: "g_led_control_registers_update_required (upd s) ! d"
    using dlen by (simp add: upd_def)
  have flag2: "g_led_control_registers_update_required (upd (upd s)) ! d"
    using dlen by (simp add: upd_def)
  have same: "g_led_control_registers (upd (upd s)) = g_led_control_registers (upd s)"
    using dlen rlen by (simp add: upd_def idem)
  show ?thesis
    unfolding Let_def d_def[symmetric] r_def[symmetric] n_def[symmetric]
  proof (rule exI[of _ "upd s"], rule exI[of _ "upd (upd s)"], intro conjI allI impI)
    show "is31fl3733_set_led_control_register b index en s = Inr (upd s)" by (rule step)
    show "is31fl3733_set_led_control_register b index en (upd s) = Inr (upd (upd s))" by (rule step)
    show "bit (g_led_control_registers (upd s) ! d ! r) m =
            (if m = n then en else bit (g_led_control_registers s ! d ! r) m)" for m
      by (simp only: slot bits)
    show "g_led_control_registers (upd s) ! d' ! r' = g_led_control_registers s ! d' ! r'"
      if "(d', r') \<noteq> (d, r)" for d' r' using that by (rule other)
    show "g_led_control_registers_update_required (upd s) ! d" by (rule flag1)
    show "g_led_control_registers_update_required (upd (upd s)) ! d" by (rule flag2)
    show "g_led_control_registers (upd (upd s)) = g_led_control_registers (upd s)" by (rule same)
  qed
qed

lemma example_led2: "g_is31_leds example_board ! unat (2 :: u8) = \<lparr>driver = 1, v = 0x13\<rparr>"
  by (simp add: example_board_def)

theorem set_led_control_register_bit_witness:
  "\<exists>s' s''.
      is31fl3733_set_led_control_register example_board 2 True (startup example_board) = Inr s' \<and>
      is31fl3733_set_led_control_register example_board 2 True s' = Inr s'' \<and>
      g_led_control_registers s' ! 1 ! 2 = 8 \<and>
      g_led_control_registers s' ! 1 ! 3 = 0 \<and>
      g_led_control_registers s' ! 0 ! 2 = 0 \<and>
      g_led_control_registers_update_required s' ! 1 \<and>
      g_led_control_registers_update_required s'' ! 1 \<and>
      g_led_control_registers s'' = g_led_control_registers s'"
proof -
  have i: "unat (2 :: u8) < LED_MATRIX_LED_COUNT example_board"
    by (simp add: example_board_def)
  have c: "unat (driver \<lparr>driver = 1, v = 0x13 :: u8\<rparr>) = 1"
    "unat (v \<lparr>driver = 1 :: u8, v = 0x13 :: u8\<rparr>) div 8 = 2"
    "unat (v \<lparr>driver = 1 :: u8, v = 0x13 :: u8\<rparr>) mod 8 = 3"
    by simp_all
  have z: "g_led_control_registers (startup example_board) ! 1 ! 2 = 0"
    "g_led_control_registers (startup example_board) ! 1 ! 3 = 0"
    "g_led_control_registers (startup example_board) ! 0 ! 2 = 0"
    by (simp_all add: startup_def example_board_def)
  obtain s' s'' where
    1: "is31fl3733_set_led_control_register example_board 2 True (startup example_board) = Inr s'" and
    2: "is31fl3733_set_led_control_register example_board 2 True s' = Inr s''" and
    bits: "\<forall>m. bit (g_led_control_registers s' ! 1 ! 2) m =
             (if m = 3 then True else bit (g_led_control_registers (startup example_board) ! 1 ! 2) m)" and
    other: "\<forall>d' r'. (d', r') \<noteq> (1, 2) \<longrightarrow>
               g_led_control_registers s' ! d' ! r' = g_led_control_registers (startup example_board) ! d' ! r'" and
    rest: "g_led_control_registers_update_required s' ! 1"
      "g_led_control_registers_update_required s'' ! 1"
      "g_led_control_registers s'' = g_led_control_registers s'"
    using set_led_control_register_bit[OF example_board_ok startup_wf i, of True,
        unfolded Let_def example_led2 c]
    by blast
  have e8: "(8 :: u8) = push_bit 3 1" by simp
  have b8: "bit (8 :: u8) m = (m = 3)" for m
    unfolding e8 by (auto simp only: bit_push_bit_iff bit_1_iff possible_bit_word) auto
  have b: "bit (g_led_control_registers s' ! 1 ! 2) m = (m = 3)" for m
  proof -
    have "bit (g_led_control_registers s' ! 1 ! 2) m = (if m = 3 then True else bit (0 :: u8) m)"
      using bits unfolding z(1) by (rule spec)
    then show ?thesis by (simp only: bit_0_eq if_True if_False bot_apply bot_bool_def split: if_splits) auto
  qed
  have "g_led_control_registers s' ! 1 ! 2 = (8 :: u8)"
    by (rule bit_eqI) (simp only: b b8)
  moreover have "g_led_control_registers s' ! 1 ! 3 = 0" "g_led_control_registers s' ! 0 ! 2 = 0"
    using other z by simp_all
  ultimately show ?thesis using 1 2 rest by blast
qed

lemma set_led_control_register_valid_entry:
  assumes "unat index < length (g_is31_leds b)" "led_ok b (g_is31_leds b ! unat index)"
  shows "is31fl3733_set_led_control_register b index en s =
     (let d = unat (driver (g_is31_leds b ! unat index));
          r = unat (v (g_is31_leds b ! unat index)) div 8;
          n = unat (v (g_is31_leds b ! unat index)) mod 8;
          old = g_led_control_registers s ! d ! r
      in Inr (s\<lparr>g_led_control_registers :=
                   (g_led_control_registers s)[d := (g_led_control_registers s ! d)
                      [r := (if en then old OR push_bit n 1 else old AND NOT (push_bit n 1))]],
                 g_led_control_registers_update_required :=
                   (g_led_control_registers_update_required s)[d := True]\<rparr>))"
proof -
  have r: "unat (v (g_is31_leds b ! unat index) div 8) = unat (v (g_is31_leds b ! unat index)) div 8"
    by (simp add: unat_div)
  have n: "unat (v (g_is31_leds b ! unat index) mod 8) = unat (v (g_is31_leds b ! unat index)) mod 8"
    by (simp add: unat_mod)
  have "unat (v (g_is31_leds b ! unat index)) < 192" using assms(2) by (simp add: led_ok_def)
  then have "unat (v (g_is31_leds b ! unat index)) div 8 < 24" by simp
  then show ?thesis
    using assms by (simp add: is31fl3733_set_led_control_register_def led_at_def led_ok_def Let_def r n)
qed

text \<open>
  Claim C10. Unlike \<open>is31fl3733_set_value\<close>, \<open>is31fl3733_set_led_control_register\<close> checks
  no range: its result does not depend on \<open>LED_MATRIX_LED_COUNT\<close>. For an index at or beyond
  the end of the table (which has \<open>LED_MATRIX_LED_COUNT\<close> entries) it reads the table out of
  range, the fault \<open>Led_table_out_of_range\<close> of the model, where \<open>is31fl3733_set_value\<close> with
  the same index returns the state unchanged; and wherever the table read yields an entry that
  names a valid slot, at or beyond \<open>LED_MATRIX_LED_COUNT\<close> too, it gives bit \<open>v mod 8\<close> of
  byte \<open>v div 8\<close> of that device's control shadow buffer the value asked for, leaves every
  other bit and byte as it was, and sets the control dirty flag.
\<close>
theorem set_led_control_register_unchecked:
  "is31fl3733_set_led_control_register (b\<lparr>LED_MATRIX_LED_COUNT := n\<rparr>) index en s =
     is31fl3733_set_led_control_register b index en s \<and>
   (length (g_is31_leds b) = LED_MATRIX_LED_COUNT b \<and> LED_MATRIX_LED_COUNT b \<le> unat index \<longrightarrow>
      is31fl3733_set_led_control_register b index en s = Inl Led_table_out_of_range \<and>
      is31fl3733_set_value b (uint index) val s = Inr s) \<and>
   (state_wf b s \<and> unat index < length (g_is31_leds b) \<and> led_ok b (g_is31_leds b ! unat index) \<longrightarrow>
      (\<exists>s'. is31fl3733_set_led_control_register b index en s = Inr s' \<and>
            (let d = unat (driver (g_is31_leds b ! unat index));
                 r = unat (v (g_is31_leds b ! unat index)) div 8;
                 k = unat (v (g_is31_leds b ! unat index)) mod 8
             in (\<forall>m. bit (g_led_control_registers s' ! d ! r) m =
                       (if m = k then en else bit (g_led_control_registers s ! d ! r) m)) \<and>
                (\<forall>d' r'. (d', r') \<noteq> (d, r) \<longrightarrow>
                       g_led_control_registers s' ! d' ! r' = g_led_control_registers s ! d' ! r') \<and>
                g_led_control_registers_update_required s' ! d)))"
proof (intro conjI impI)
  show "is31fl3733_set_led_control_register (b\<lparr>LED_MATRIX_LED_COUNT := n\<rparr>) index en s =
     is31fl3733_set_led_control_register b index en s"
    by (simp add: is31fl3733_set_led_control_register_def led_at_def)
next
  assume a: "length (g_is31_leds b) = LED_MATRIX_LED_COUNT b \<and> LED_MATRIX_LED_COUNT b \<le> unat index"
  then show "is31fl3733_set_led_control_register b index en s = Inl Led_table_out_of_range"
    by (simp add: is31fl3733_set_led_control_register_def led_at_def)
  have "int (unat index) = uint index" by simp
  then have "int (LED_MATRIX_LED_COUNT b) \<le> uint index" using conjunct2[OF a] by linarith
  then show "is31fl3733_set_value b (uint index) val s = Inr s"
    by (simp add: is31fl3733_set_value_def)
next
  assume a: "state_wf b s \<and> unat index < length (g_is31_leds b) \<and> led_ok b (g_is31_leds b ! unat index)"
  define d where "d = unat (driver (g_is31_leds b ! unat index))"
  define r where "r = unat (v (g_is31_leds b ! unat index)) div 8"
  define k where "k = unat (v (g_is31_leds b ! unat index)) mod 8"
  define new where "new = (\<lambda>old :: u8. if en then old OR push_bit k 1 else old AND NOT (push_bit k 1))"
  define s' where "s' = s\<lparr>g_led_control_registers :=
                   (g_led_control_registers s)[d := (g_led_control_registers s ! d)
                      [r := new (g_led_control_registers s ! d ! r)]],
                 g_led_control_registers_update_required :=
                   (g_led_control_registers_update_required s)[d := True]\<rparr>"
  have wf: "state_wf b s" and i: "unat index < length (g_is31_leds b)"
    and ok: "led_ok b (g_is31_leds b ! unat index)"
    using a by simp_all
  have step: "is31fl3733_set_led_control_register b index en s = Inr s'"
    by (simp add: set_led_control_register_valid_entry[OF i ok] Let_def s'_def new_def d_def r_def k_def)
  have k8: "k < 8" by (simp add: k_def)
  have dlt: "d < IS31FL3733_DRIVER_COUNT b" using ok by (simp add: led_ok_def d_def)
  have dlen: "d < length (g_led_control_registers s)" "d < length (g_led_control_registers_update_required s)"
    using dlt wf by (simp_all add: state_wf_def)
  have "unat (v (g_is31_leds b ! unat index)) < 192" using ok by (simp add: led_ok_def)
  then have rlen: "r < length (g_led_control_registers s ! d)"
    using state_wf_control_row[OF wf dlt] by (simp add: r_def)
  have bits: "bit (new old) m = (if m = k then en else bit old m)" for old m
    by (cases en) (simp_all only: new_def if_True if_False control_bit_set[OF k8] control_bit_clear[OF k8])
  have slot: "g_led_control_registers s' ! d ! r = new (g_led_control_registers s ! d ! r)"
    using dlen rlen by (simp add: s'_def)
  have other: "(d', r') \<noteq> (d, r) \<Longrightarrow>
      g_led_control_registers s' ! d' ! r' = g_led_control_registers s ! d' ! r'" for d' r'
    using dlen rlen by (cases "d' = d") (auto simp add: s'_def)
  have flag: "g_led_control_registers_update_required s' ! d"
    using dlen by (simp add: s'_def)
  show "\<exists>s'. is31fl3733_set_led_control_register b index en s = Inr s' \<and>
            (let d = unat (driver (g_is31_leds b ! unat index));
                 r = unat (v (g_is31_leds b ! unat index)) div 8;
                 k = unat (v (g_is31_leds b ! unat index)) mod 8
             in (\<forall>m. bit (g_led_control_registers s' ! d ! r) m =
                       (if m = k then en else bit (g_led_control_registers s ! d ! r) m)) \<and>
                (\<forall>d' r'. (d', r') \<noteq> (d, r) \<longrightarrow>
                       g_led_control_registers s' ! d' ! r' = g_led_control_registers s ! d' ! r') \<and>
                g_led_control_registers_update_required s' ! d)"
    unfolding Let_def d_def[symmetric] r_def[symmetric] k_def[symmetric]
  proof (rule exI[of _ s'], intro conjI allI impI)
    show "is31fl3733_set_led_control_register b index en s = Inr s'" by (rule step)
    show "bit (g_led_control_registers s' ! d ! r) m =
            (if m = k then en else bit (g_led_control_registers s ! d ! r) m)" for m
      by (simp only: slot bits)
    show "g_led_control_registers s' ! d' ! r' = g_led_control_registers s ! d' ! r'"
      if "(d', r') \<noteq> (d, r)" for d' r' using that by (rule other)
    show "g_led_control_registers_update_required s' ! d" by (rule flag)
  qed
qed

theorem set_led_control_register_unchecked_witness:
  "is31fl3733_set_led_control_register (example_board\<lparr>LED_MATRIX_LED_COUNT := 0\<rparr>) 2 True (startup example_board) =
     is31fl3733_set_led_control_register example_board 2 True (startup example_board) \<and>
   is31fl3733_set_led_control_register example_board 3 True (startup example_board) = Inl Led_table_out_of_range \<and>
   is31fl3733_set_value example_board 3 128 (startup example_board) = Inr (startup example_board) \<and>
   LED_MATRIX_LED_COUNT short_count_board \<le> unat (2 :: u8) \<and>
   (\<exists>s'. is31fl3733_set_led_control_register short_count_board 2 True (startup short_count_board) = Inr s' \<and>
         g_led_control_registers s' ! 1 ! 2 = 8 \<and>
         g_led_control_registers s' ! 1 ! 3 = 0 \<and>
         g_led_control_registers s' ! 0 ! 2 = 0 \<and>
         g_led_control_registers_update_required s' ! 1)"
proof -
  have 1: "length (g_is31_leds example_board) = LED_MATRIX_LED_COUNT example_board \<and>
        LED_MATRIX_LED_COUNT example_board \<le> unat (3 :: u8)"
    by (simp add: example_board_def)
  have led: "g_is31_leds short_count_board ! unat (2 :: u8) = \<lparr>driver = 1, v = 0x13\<rparr>"
    by (simp add: short_count_board_def example_board_def)
  have 2: "state_wf short_count_board (startup short_count_board) \<and>
        unat (2 :: u8) < length (g_is31_leds short_count_board) \<and>
        led_ok short_count_board (g_is31_leds short_count_board ! unat (2 :: u8))"
    by (simp add: startup_wf) (simp add: short_count_board_def example_board_def led_ok_def)
  have c: "unat (driver \<lparr>driver = 1, v = 0x13 :: u8\<rparr>) = 1"
    "unat (v \<lparr>driver = 1 :: u8, v = 0x13 :: u8\<rparr>) div 8 = 2"
    "unat (v \<lparr>driver = 1 :: u8, v = 0x13 :: u8\<rparr>) mod 8 = 3"
    by simp_all
  have z: "g_led_control_registers (startup short_count_board) ! 1 ! 2 = 0"
    "g_led_control_registers (startup short_count_board) ! 1 ! 3 = 0"
    "g_led_control_registers (startup short_count_board) ! 0 ! 2 = 0"
    by (simp_all add: startup_def short_count_board_def example_board_def)
  note A = set_led_control_register_unchecked[where b = example_board and n = 0 and index = 2
          and en = True and s = "startup example_board" and val = 128]
  note B = set_led_control_register_unchecked[where b = example_board and n = 0 and index = 3
          and en = True and s = "startup example_board" and val = 128]
  note C = set_led_control_register_unchecked[where b = short_count_board and n = 0 and index = 2
          and en = True and s = "startup short_count_board" and val = 128]
  have u3: "uint (3 :: u8) = 3" by simp
  from A have c1: "is31fl3733_set_led_control_register (example_board\<lparr>LED_MATRIX_LED_COUNT := 0\<rparr>) 2 True
       (startup example_board) =
     is31fl3733_set_led_control_register example_board 2 True (startup example_board)"
    by (rule conjunct1)
  from B 1 have c2: "is31fl3733_set_led_control_register example_board 3 True (startup example_board) =
       Inl Led_table_out_of_range \<and>
     is31fl3733_set_value example_board (uint (3 :: u8)) 128 (startup example_board) = Inr (startup example_board)"
    by blast
  have c4: "LED_MATRIX_LED_COUNT short_count_board \<le> unat (2 :: u8)"
    by (simp add: short_count_board_def)
  obtain s' where
    1: "is31fl3733_set_led_control_register short_count_board 2 True (startup short_count_board) = Inr s'" and
    bits: "\<forall>m. bit (g_led_control_registers s' ! 1 ! 2) m =
             (if m = 3 then True else bit (g_led_control_registers (startup short_count_board) ! 1 ! 2) m)" and
    other: "\<forall>d' r'. (d', r') \<noteq> (1, 2) \<longrightarrow>
               g_led_control_registers s' ! d' ! r' = g_led_control_registers (startup short_count_board) ! d' ! r'" and
    flag: "g_led_control_registers_update_required s' ! 1"
    using C[THEN conjunct2, THEN conjunct2, THEN mp, OF 2, unfolded Let_def led c]
    by blast
  have e8: "(8 :: u8) = push_bit 3 1" by simp
  have b8: "bit (8 :: u8) m = (m = 3)" for m
    unfolding e8 by (auto simp only: bit_push_bit_iff bit_1_iff possible_bit_word) auto
  have b: "bit (g_led_control_registers s' ! 1 ! 2) m = (m = 3)" for m
  proof -
    have "bit (g_led_control_registers s' ! 1 ! 2) m = (if m = 3 then True else bit (0 :: u8) m)"
      using bits unfolding z(1) by (rule spec)
    then show ?thesis by (simp only: bit_0_eq if_True if_False bot_apply bot_bool_def split: if_splits) auto
  qed
  have "g_led_control_registers s' ! 1 ! 2 = (8 :: u8)"
    by (rule bit_eqI) (simp only: b b8)
  moreover have "g_led_control_registers s' ! 1 ! 3 = 0" "g_led_control_registers s' ! 0 ! 2 = 0"
    using other z by simp_all
  ultimately have c3: "\<exists>s'. is31fl3733_set_led_control_register short_count_board 2 True
         (startup short_count_board) = Inr s' \<and>
         g_led_control_registers s' ! 1 ! 2 = 8 \<and>
         g_led_control_registers s' ! 1 ! 3 = 0 \<and>
         g_led_control_registers s' ! 0 ! 2 = 0 \<and>
         g_led_control_registers_update_required s' ! 1"
    using 1 flag by blast
  show ?thesis using c1 c2 c3 c4 unfolding u3 by blast
qed

subsection \<open>Flushing the control page\<close>

lemma transmit_all_calls:
  "\<exists>new. transmit_all bus tr cs = tr @ new \<and> map fst new = cs"
proof (induction cs arbitrary: tr)
  case Nil
  show ?case by simp
next
  case (Cons c cs)
  obtain new where "transmit_all bus (append_call bus tr c) cs = append_call bus tr c @ new" "map fst new = cs"
    using Cons.IH by blast
  then show ?case by (intro exI[of _ "(c, bus tr c) # new"]) (simp add: append_call_def)
qed

lemma transmit_fail_fast_calls:
  "\<exists>new. snd (transmit_fail_fast bus tr cs) = tr @ new \<and>
         map fst new = take (length new) cs \<and> length new \<le> length cs \<and>
         (fst (transmit_fail_fast bus tr cs) \<longrightarrow> length new = length cs \<and> list_all (\<lambda>e. snd e = 0) new) \<and>
         (\<not> fst (transmit_fail_fast bus tr cs) \<longrightarrow>
            new \<noteq> [] \<and> snd (last new) \<noteq> 0 \<and> list_all (\<lambda>e. snd e = 0) (butlast new))"
proof (induction cs arbitrary: tr)
  case Nil
  show ?case by simp
next
  case (Cons c cs)
  show ?case
  proof (cases "bus tr c = 0")
    case False
    then show ?thesis by (intro exI[of _ "[(c, bus tr c)]"]) (simp add: append_call_def)
  next
    case True
    obtain new where n: "snd (transmit_fail_fast bus (append_call bus tr c) cs) = append_call bus tr c @ new"
      "map fst new = take (length new) cs" "length new \<le> length cs"
      "fst (transmit_fail_fast bus (append_call bus tr c) cs) \<longrightarrow> length new = length cs \<and> list_all (\<lambda>e. snd e = 0) new"
      "\<not> fst (transmit_fail_fast bus (append_call bus tr c) cs) \<longrightarrow>
            new \<noteq> [] \<and> snd (last new) \<noteq> 0 \<and> list_all (\<lambda>e. snd e = 0) (butlast new)"
      using Cons.IH by blast
    show ?thesis using True n
      by (intro exI[of _ "(c, bus tr c) # new"]) (auto simp add: append_call_def)
  qed
qed

lemma transmit_fail_fast_always_ok:
  "\<forall>tr c. bus tr c = 0 \<Longrightarrow> transmit_fail_fast bus tr cs = (True, tr @ map (\<lambda>c. (c, 0)) cs)"
  by (induction cs arbitrary: tr) (simp_all add: append_call_def)

lemma control_page_selected_shadow: "shadow_unchanged s (control_page_selected bus addr s)"
  unfolding control_page_selected_def
  by (rule shadow_unchanged_trans[OF write_register_shadow write_register_shadow])

lemma write_register_log:
  "2 \<le> length (g_twi_transfer_buffer s) \<Longrightarrow>
   i2c_log (snd (is31fl3733_write_register bus addr reg data s)) =
     append_call bus (i2c_log s) (register_write addr reg data)"
  by (simp add: write_register_eq)

lemma page_selected_log:
  assumes "2 \<le> length (g_twi_transfer_buffer s)"
  shows "i2c_log (snd (is31fl3733_write_register bus addr reg2 data2
            (snd (is31fl3733_write_register bus addr reg1 data1 s)))) =
         transmit_all bus (i2c_log s) [register_write addr reg1 data1, register_write addr reg2 data2]"
proof -
  have "2 \<le> length (g_twi_transfer_buffer (snd (is31fl3733_write_register bus addr reg1 data1 s)))"
    using assms write_register_shadow[of s bus addr reg1 data1] by (simp add: shadow_unchanged_def)
  then show ?thesis using assms by (simp add: write_register_log)
qed

lemma transmit_all_append:
  "transmit_all bus tr (cs @ ds) = transmit_all bus (transmit_all bus tr cs) ds"
  by (induction cs arbitrary: tr) simp_all

lemma update_led_control_registers_dirty:
  assumes "state_wf b s" "unat index < IS31FL3733_DRIVER_COUNT b"
    "g_led_control_registers_update_required s ! unat index"
  shows "\<exists>s'. is31fl3733_update_led_control_registers b bus addr index s = Inr s' \<and>
           \<not> g_led_control_registers_update_required s' ! unat index \<and>
           g_led_control_registers_update_required s' =
             (g_led_control_registers_update_required s)[unat index := False] \<and>
           g_led_control_registers s' = g_led_control_registers s \<and>
           g_pwm_buffer s' = g_pwm_buffer s \<and>
           g_pwm_buffer_update_required s' = g_pwm_buffer_update_required s \<and>
           length (g_twi_transfer_buffer s') = 20 \<and>
           i2c_log s' = transmit_all bus (i2c_log s)
             ([register_write addr IS31FL3733_COMMANDREGISTER_WRITELOCK 0xC5,
               register_write addr IS31FL3733_COMMANDREGISTER IS31FL3733_PAGE_LEDCONTROL] @
              control_writes addr (g_led_control_registers s ! unat index))"
proof -
  define s2 where "s2 = control_page_selected bus addr s"
  define s3 where "s3 = write_control_registers_from bus addr (unat index) 0 s2"
  have tw: "length (g_twi_transfer_buffer s) = 20" using assms(1) by (simp add: state_wf_def)
  have sh2: "shadow_unchanged s s2" unfolding s2_def by (rule control_page_selected_shadow)
  have tw2: "2 \<le> length (g_twi_transfer_buffer s2)" using sh2 tw by (simp add: shadow_unchanged_def)
  have regs2: "g_led_control_registers s2 = g_led_control_registers s"
    using sh2 by (simp add: shadow_unchanged_def)
  have l2: "i2c_log s2 = transmit_all bus (i2c_log s)
      [register_write addr IS31FL3733_COMMANDREGISTER_WRITELOCK 0xC5,
       register_write addr IS31FL3733_COMMANDREGISTER IS31FL3733_PAGE_LEDCONTROL]"
    unfolding s2_def control_page_selected_def using tw by (intro page_selected_log) simp
  have loop: "i2c_log s3 = transmit_all bus (i2c_log s2) (control_writes addr (g_led_control_registers s ! unat index))"
    and sh3: "shadow_unchanged s2 s3"
    using write_control_registers_from_trace[OF tw2, of 0 bus addr "unat index"]
    by (simp_all add: s3_def control_writes_def regs2)
  have sh: "shadow_unchanged s s3" using sh2 sh3 by (rule shadow_unchanged_trans)
  have eq: "is31fl3733_update_led_control_registers b bus addr index s =
      Inr (s3\<lparr>g_led_control_registers_update_required :=
                (g_led_control_registers_update_required s3)[unat index := False]\<rparr>)"
    using assms(2,3)
    by (simp add: is31fl3733_update_led_control_registers_def Let_def s3_def s2_def control_page_selected_def)
  have len: "unat index < length (g_led_control_registers_update_required s)"
    using assms(1,2) by (simp add: state_wf_def)
  have log: "i2c_log s3 = transmit_all bus (i2c_log s)
             ([register_write addr IS31FL3733_COMMANDREGISTER_WRITELOCK 0xC5,
               register_write addr IS31FL3733_COMMANDREGISTER IS31FL3733_PAGE_LEDCONTROL] @
              control_writes addr (g_led_control_registers s ! unat index))"
    unfolding transmit_all_append loop l2 ..
  show ?thesis
    unfolding eq using sh len tw log by (simp add: shadow_unchanged_def)
qed

lemma list_all_update_row:
  assumes "list_all (\<lambda>row. length row = n) xss"
  shows "list_all (\<lambda>row. length row = n) (xss[d := (xss ! d)[r := x]])"
proof (cases "d < length xss")
  case True
  then show ?thesis using assms by (auto simp add: list_all_length nth_list_update)
next
  case False
  then have "xss[d := (xss ! d)[r := x]] = xss" by (intro list_update_beyond) simp
  then show ?thesis using assms by (simp only:)
qed

lemma state_wf_control_update:
  "state_wf b s \<Longrightarrow>
   state_wf b (s\<lparr>g_led_control_registers :=
                   (g_led_control_registers s)[d := (g_led_control_registers s ! d)[r := x]],
                 g_led_control_registers_update_required :=
                   (g_led_control_registers_update_required s)[d := f]\<rparr>)"
  by (simp add: state_wf_def list_all_update_row)

lemma state_wf_pwm_update:
  "state_wf b s \<Longrightarrow>
   state_wf b (s\<lparr>g_pwm_buffer := (g_pwm_buffer s)[d := (g_pwm_buffer s ! d)[r := x]],
                 g_pwm_buffer_update_required := (g_pwm_buffer_update_required s)[d := f]\<rparr>)"
  by (simp add: state_wf_def list_all_update_row)

lemma calls_since_transmit_all:
  "i2c_log s' = transmit_all bus (i2c_log s) cs \<Longrightarrow> calls_since s s' = cs \<and> take (length (i2c_log s)) (i2c_log s') = i2c_log s"
  using transmit_all_calls[of bus "i2c_log s" cs] by (auto simp add: calls_since_def)

text \<open>
  Claim C9. For every device index below the driver count,
  \<open>is31fl3733_update_led_control_registers\<close> returns the state it was given, with no call
  made, when the control dirty flag is false. When the flag is true it makes, whatever the bus
  answers, exactly these calls in this order: the unlock (register 0xFE, value 0xC5), the
  selection of the control page (register 0xFD, value 0), and one \<open>write_register\<close> call for
  each of the control registers 0 to 23 in ascending order with the byte of the shadow buffer;
  then the flag is false. With only a control bit of device 1 changed and the flag of device 0
  clear, flushing device 0 makes no call and flushing device 1 makes the 24 register writes
  after the unlock and the page selection.
\<close>
theorem flush_control_writes:
  assumes "state_wf b s" "unat index < IS31FL3733_DRIVER_COUNT b"
  shows "(\<not> g_led_control_registers_update_required s ! unat index \<longrightarrow>
            is31fl3733_update_led_control_registers b bus addr index s = Inr s) \<and>
         (g_led_control_registers_update_required s ! unat index \<longrightarrow>
            (\<exists>s'. is31fl3733_update_led_control_registers b bus addr index s = Inr s' \<and>
                  take (length (i2c_log s)) (i2c_log s') = i2c_log s \<and>
                  calls_since s s' =
                    [register_write addr 0xFE 0xC5, register_write addr 0xFD 0x00] @
                    map (\<lambda>i. register_write addr (of_nat i) (g_led_control_registers s ! unat index ! i)) [0..<24] \<and>
                  length (calls_since s s') = 26 \<and>
                  \<not> g_led_control_registers_update_required s' ! unat index \<and>
                  g_led_control_registers s' = g_led_control_registers s)) \<and>
         (board_ok b \<and> unat led_index < LED_MATRIX_LED_COUNT b \<and>
          unat (driver (g_is31_leds b ! unat led_index)) = 1 \<and>
          \<not> g_led_control_registers_update_required s ! 0 \<longrightarrow>
            (\<exists>s1 s2. is31fl3733_set_led_control_register b led_index en s = Inr s1 \<and>
                  is31fl3733_update_led_control_registers b bus addrA 0 s1 = Inr s1 \<and>
                  calls_since s1 s1 = [] \<and>
                  is31fl3733_update_led_control_registers b bus addrB 1 s1 = Inr s2 \<and>
                  calls_since s1 s2 =
                    [register_write addrB 0xFE 0xC5, register_write addrB 0xFD 0x00] @
                    map (\<lambda>i. register_write addrB (of_nat i) (g_led_control_registers s1 ! 1 ! i)) [0..<24]))"
proof (intro conjI impI)
  assume "\<not> g_led_control_registers_update_required s ! unat index"
  then show "is31fl3733_update_led_control_registers b bus addr index s = Inr s"
    using assms(2) by (simp add: is31fl3733_update_led_control_registers_def)
next
  assume f: "g_led_control_registers_update_required s ! unat index"
  obtain s' where s': "is31fl3733_update_led_control_registers b bus addr index s = Inr s'"
    "\<not> g_led_control_registers_update_required s' ! unat index"
    "g_led_control_registers s' = g_led_control_registers s"
    "i2c_log s' = transmit_all bus (i2c_log s)
             ([register_write addr IS31FL3733_COMMANDREGISTER_WRITELOCK 0xC5,
               register_write addr IS31FL3733_COMMANDREGISTER IS31FL3733_PAGE_LEDCONTROL] @
              control_writes addr (g_led_control_registers s ! unat index))"
    using update_led_control_registers_dirty[OF assms f, of bus addr] by blast
  note c = calls_since_transmit_all[OF s'(4)]
  show "\<exists>s'. is31fl3733_update_led_control_registers b bus addr index s = Inr s' \<and>
                  take (length (i2c_log s)) (i2c_log s') = i2c_log s \<and>
                  calls_since s s' =
                    [register_write addr 0xFE 0xC5, register_write addr 0xFD 0x00] @
                    map (\<lambda>i. register_write addr (of_nat i) (g_led_control_registers s ! unat index ! i)) [0..<24] \<and>
                  length (calls_since s s') = 26 \<and>
                  \<not> g_led_control_registers_update_required s' ! unat index \<and>
                  g_led_control_registers s' = g_led_control_registers s"
    using s'(1,2,3) c
    by (intro exI[of _ s'])
       (simp add: control_writes_def IS31FL3733_COMMANDREGISTER_WRITELOCK_def
          IS31FL3733_COMMANDREGISTER_def IS31FL3733_PAGE_LEDCONTROL_def)
next
  assume a: "board_ok b \<and> unat led_index < LED_MATRIX_LED_COUNT b \<and>
          unat (driver (g_is31_leds b ! unat led_index)) = 1 \<and>
          \<not> g_led_control_registers_update_required s ! 0"
  define s1 where "s1 = s\<lparr>g_led_control_registers :=
                   (g_led_control_registers s)[1 := (g_led_control_registers s ! 1)
                      [unat (v (g_is31_leds b ! unat led_index)) div 8 :=
                         (if en then g_led_control_registers s ! 1 ! (unat (v (g_is31_leds b ! unat led_index)) div 8)
                                     OR push_bit (unat (v (g_is31_leds b ! unat led_index)) mod 8) 1
                          else g_led_control_registers s ! 1 ! (unat (v (g_is31_leds b ! unat led_index)) div 8)
                                     AND NOT (push_bit (unat (v (g_is31_leds b ! unat led_index)) mod 8) 1))]],
                 g_led_control_registers_update_required :=
                   (g_led_control_registers_update_required s)[1 := True]\<rparr>"
  have set: "is31fl3733_set_led_control_register b led_index en s = Inr s1"
    using a by (simp add: set_led_control_register_in_range Let_def s1_def)
  have dc: "1 < IS31FL3733_DRIVER_COUNT b"
    using a led_at_in_range(2)[of b "unat led_index"] by simp
  have wf1: "state_wf b s1"
    unfolding s1_def using assms(1) by (rule state_wf_control_update)
  have f0: "\<not> g_led_control_registers_update_required s1 ! 0" using a by (simp add: s1_def)
  have f1: "g_led_control_registers_update_required s1 ! 1"
    using assms(1) dc by (simp add: s1_def state_wf_def)
  have flush0: "is31fl3733_update_led_control_registers b bus addrA 0 s1 = Inr s1"
    using f0 dc by (simp add: is31fl3733_update_led_control_registers_def)
  have u1: "unat (1 :: u8) = 1" by simp
  obtain s2 where s2: "is31fl3733_update_led_control_registers b bus addrB 1 s1 = Inr s2"
    "i2c_log s2 = transmit_all bus (i2c_log s1)
             ([register_write addrB IS31FL3733_COMMANDREGISTER_WRITELOCK 0xC5,
               register_write addrB IS31FL3733_COMMANDREGISTER IS31FL3733_PAGE_LEDCONTROL] @
              control_writes addrB (g_led_control_registers s1 ! 1))"
    using update_led_control_registers_dirty[OF wf1, of 1 bus addrB] dc f1 unfolding u1 by auto
  note c = calls_since_transmit_all[OF s2(2)]
  show "\<exists>s1 s2. is31fl3733_set_led_control_register b led_index en s = Inr s1 \<and>
                  is31fl3733_update_led_control_registers b bus addrA 0 s1 = Inr s1 \<and>
                  calls_since s1 s1 = [] \<and>
                  is31fl3733_update_led_control_registers b bus addrB 1 s1 = Inr s2 \<and>
                  calls_since s1 s2 =
                    [register_write addrB 0xFE 0xC5, register_write addrB 0xFD 0x00] @
                    map (\<lambda>i. register_write addrB (of_nat i) (g_led_control_registers s1 ! 1 ! i)) [0..<24]"
    using set flush0 s2(1) c
    by (intro exI[of _ s1] exI[of _ s2])
       (simp add: control_writes_def IS31FL3733_COMMANDREGISTER_WRITELOCK_def
          IS31FL3733_COMMANDREGISTER_def IS31FL3733_PAGE_LEDCONTROL_def calls_since_def)
qed

lemma control_dirty_example_wf: "state_wf example_board control_dirty_example"
  by (simp add: state_wf_def control_dirty_example_def startup_def example_board_def list_all_length)

theorem flush_control_writes_witness:
  "is31fl3733_update_led_control_registers example_board bus_dead 0x50 0 control_dirty_example =
     Inr control_dirty_example \<and>
   (\<exists>s'. is31fl3733_update_led_control_registers example_board bus_dead 0x53 1 control_dirty_example = Inr s' \<and>
         take (length (i2c_log control_dirty_example)) (i2c_log s') = i2c_log control_dirty_example \<and>
         calls_since control_dirty_example s' =
           [register_write 0x53 0xFE 0xC5, register_write 0x53 0xFD 0x00] @
           map (\<lambda>i. register_write 0x53 (of_nat i) (g_led_control_registers control_dirty_example ! 1 ! i)) [0..<24] \<and>
         length (calls_since control_dirty_example s') = 26 \<and>
         \<not> g_led_control_registers_update_required s' ! 1 \<and>
         g_led_control_registers s' = g_led_control_registers control_dirty_example) \<and>
   (\<exists>s1 s2. is31fl3733_set_led_control_register example_board 2 True (startup example_board) = Inr s1 \<and>
         is31fl3733_update_led_control_registers example_board bus_dead 0x50 0 s1 = Inr s1 \<and>
         calls_since s1 s1 = [] \<and>
         is31fl3733_update_led_control_registers example_board bus_dead 0x53 1 s1 = Inr s2 \<and>
         calls_since s1 s2 =
           [register_write 0x53 0xFE 0xC5, register_write 0x53 0xFD 0x00] @
           map (\<lambda>i. register_write 0x53 (of_nat i) (g_led_control_registers s1 ! 1 ! i)) [0..<24])"
proof -
  have d: "unat (0 :: u8) < IS31FL3733_DRIVER_COUNT example_board"
    "unat (1 :: u8) < IS31FL3733_DRIVER_COUNT example_board"
    by (simp_all add: example_board_def)
  have u: "unat (0 :: u8) = 0" "unat (1 :: u8) = 1" by simp_all
  have f: "\<not> g_led_control_registers_update_required control_dirty_example ! 0"
    "g_led_control_registers_update_required control_dirty_example ! 1"
    by (simp_all add: control_dirty_example_def)
  have sc: "board_ok example_board \<and> unat (2 :: u8) < LED_MATRIX_LED_COUNT example_board \<and>
          unat (driver (g_is31_leds example_board ! unat (2 :: u8))) = 1 \<and>
          \<not> g_led_control_registers_update_required (startup example_board) ! 0"
    by (simp add: example_board_ok) (simp add: example_board_def startup_def)
  note A = flush_control_writes[OF control_dirty_example_wf d(1), where bus = bus_dead and addr = "0x50",
      unfolded u]
  note B = flush_control_writes[OF control_dirty_example_wf d(2), where bus = bus_dead and addr = "0x53",
      unfolded u]
  note C = flush_control_writes[OF startup_wf d(1), where bus = bus_dead and led_index = 2 and en = True
      and addrA = "0x50" and addrB = "0x53"]
  have 1: "is31fl3733_update_led_control_registers example_board bus_dead 0x50 0 control_dirty_example =
     Inr control_dirty_example"
    using A f(1) by blast
  note 2 = B[THEN conjunct2, THEN conjunct1, THEN mp, OF f(2)]
  note 3 = C[THEN conjunct2, THEN conjunct2, THEN mp, OF sc]
  show ?thesis using 1 2 3 by (intro conjI)
qed

subsection \<open>The block write of the PWM page\<close>

lemma transmit_all_always_ok:
  "\<forall>tr c. bus tr c = 0 \<Longrightarrow> transmit_all bus tr cs = tr @ map (\<lambda>c. (c, 0)) cs"
  by (induction cs arbitrary: tr) (simp_all add: append_call_def)

lemma pwm_chunks_nth:
  "k < 12 \<Longrightarrow> pwm_chunks addr buf ! k = i2c_frame addr (of_nat (16 * k) # take 16 (drop (16 * k) buf))"
  by (simp add: pwm_chunks_def pwm_chunk_def)

lemma pwm_chunk_length:
  "length buf = 192 \<Longrightarrow> k < 12 \<Longrightarrow> length (i2c_data (pwm_chunk addr buf k)) = 17"
  by (simp add: pwm_chunk_def i2c_frame_def)

lemma pwm_chunks_all_17:
  "length buf = 192 \<Longrightarrow> list_all (\<lambda>c. length (i2c_data c) = 17) (pwm_chunks addr buf)"
  by (simp add: pwm_chunks_def list_all_length pwm_chunk_length)

lemma update_pwm_buffers_always_ok:
  assumes "state_wf b s" "unat index < IS31FL3733_DRIVER_COUNT b"
    "g_pwm_buffer_update_required s ! unat index" "\<forall>tr c. bus tr c = 0"
  shows "\<exists>s'. is31fl3733_update_pwm_buffers b bus addr index s = Inr s' \<and>
           i2c_log s' = i2c_log s @ map (\<lambda>c. (c, 0))
             ([register_write addr IS31FL3733_COMMANDREGISTER_WRITELOCK 0xC5,
               register_write addr IS31FL3733_COMMANDREGISTER IS31FL3733_PAGE_PWM] @
              pwm_chunks addr (g_pwm_buffer s ! unat index)) \<and>
           g_pwm_buffer s' = g_pwm_buffer s \<and>
           g_led_control_registers s' = g_led_control_registers s \<and>
           g_pwm_buffer_update_required s' = (g_pwm_buffer_update_required s)[unat index := False] \<and>
           g_led_control_registers_update_required s' = g_led_control_registers_update_required s \<and>
           length (g_twi_transfer_buffer s') = 20"
proof -
  define s2 where "s2 = pwm_page_selected bus addr s"
  define buf where "buf = g_pwm_buffer s ! unat index"
  have tw: "length (g_twi_transfer_buffer s) = 20" using assms(1) by (simp add: state_wf_def)
  have tw2: "length (g_twi_transfer_buffer s2) = 20"
    using pwm_page_selected_shadow[of s bus addr] tw by (simp add: s2_def shadow_unchanged_def)
  have len: "length buf = 192" unfolding buf_def using assms(1,2) by (rule state_wf_row)
  have l2: "i2c_log s2 = i2c_log s @ map (\<lambda>c. (c, 0))
      [register_write addr IS31FL3733_COMMANDREGISTER_WRITELOCK 0xC5,
       register_write addr IS31FL3733_COMMANDREGISTER IS31FL3733_PAGE_PWM]"
    unfolding s2_def pwm_page_selected_def using tw assms(4)
    by (simp add: page_selected_log transmit_all_always_ok del: transmit_all.simps)
  have ok: "fst (is31fl3733_write_pwm_buffer bus addr buf s2)"
    and l3: "i2c_log (snd (is31fl3733_write_pwm_buffer bus addr buf s2)) =
       i2c_log s2 @ map (\<lambda>c. (c, 0)) (pwm_chunks addr buf)"
    using write_pwm_buffer_trace(1,2)[OF tw2 len, of bus addr] assms(4)
    by (simp_all add: transmit_fail_fast_always_ok)
  show ?thesis
    using update_pwm_buffers_dirty[OF assms(1-3), of bus addr] ok l3 l2
    unfolding s2_def[symmetric] buf_def[symmetric] by auto
qed

lemma set_value_wf:
  assumes "state_wf b s" "is31fl3733_set_value b i val s = Inr s'"
  shows "state_wf b s'"
proof -
  have "s' = s \<or> (\<exists>d r. s' = s\<lparr>g_pwm_buffer := (g_pwm_buffer s)[d := (g_pwm_buffer s ! d)[r := val]],
                     g_pwm_buffer_update_required := (g_pwm_buffer_update_required s)[d := True]\<rparr>)"
    using assms(2)
    by (auto simp add: is31fl3733_set_value_def Let_def split: if_splits option.splits)
  then show ?thesis using assms(1) state_wf_pwm_update by auto
qed

text \<open>
  Claim C8. \<open>is31fl3733_write_pwm_buffer\<close> sends the 192-byte PWM buffer as 12 chunks, chunk
  \<open>k\<close> being the register offset \<open>16 * k\<close> followed by the 16 bytes from that offset (17 bytes
  handed to the bus), in ascending order; it returns failure at the first chunk whose
  transmission fails and sends no later chunk: its result and its trace are those of
  \<open>transmit_fail_fast\<close> on the list of chunks. On a board whose table resolves logical index 0
  to register 0 of device 0 and a transport that always succeeds, a flush of device 0 that finds
  the flag set after \<open>is31fl3733_set_value b 0 128\<close> makes exactly 12 block transfers (after the
  unlock and the page selection), byte 0 of the PWM buffer is 128, and so is the first data byte
  of the first chunk.
\<close>
theorem write_pwm_buffer_chunks:
  assumes "length (g_twi_transfer_buffer s) = 20" "length pwm_buffer = 192"
  shows "(fst (is31fl3733_write_pwm_buffer bus addr pwm_buffer s),
          i2c_log (snd (is31fl3733_write_pwm_buffer bus addr pwm_buffer s))) =
           transmit_fail_fast bus (i2c_log s) (pwm_chunks addr pwm_buffer) \<and>
         length (pwm_chunks addr pwm_buffer) = 12 \<and>
         (\<forall>k<12. pwm_chunks addr pwm_buffer ! k =
                    i2c_frame addr (of_nat (16 * k) # take 16 (drop (16 * k) pwm_buffer)) \<and>
                  length (i2c_data (pwm_chunks addr pwm_buffer ! k)) = 17) \<and>
         (\<exists>new. i2c_log (snd (is31fl3733_write_pwm_buffer bus addr pwm_buffer s)) = i2c_log s @ new \<and>
                map fst new = take (length new) (pwm_chunks addr pwm_buffer) \<and> length new \<le> 12 \<and>
                (fst (is31fl3733_write_pwm_buffer bus addr pwm_buffer s) \<longrightarrow>
                   length new = 12 \<and> list_all (\<lambda>e. snd e = 0) new) \<and>
                (\<not> fst (is31fl3733_write_pwm_buffer bus addr pwm_buffer s) \<longrightarrow>
                   new \<noteq> [] \<and> snd (last new) \<noteq> 0 \<and> list_all (\<lambda>e. snd e = 0) (butlast new))) \<and>
         (board_ok b \<and> state_wf b t \<and> 0 < LED_MATRIX_LED_COUNT b \<and>
          g_is31_leds b ! 0 = \<lparr>driver = 0, v = 0\<rparr> \<and> (\<forall>tr c. bus tr c = 0) \<and>
          is31fl3733_set_value b 0 128 t = Inr t1 \<and> g_pwm_buffer_update_required t1 ! 0 \<longrightarrow>
            (\<exists>t2. is31fl3733_update_pwm_buffers b bus addr 0 t1 = Inr t2 \<and>
                  take (length (i2c_log t1)) (i2c_log t2) = i2c_log t1 \<and>
                  calls_since t1 t2 =
                    [register_write addr 0xFE 0xC5, register_write addr 0xFD 0x01] @
                    pwm_chunks addr (g_pwm_buffer t1 ! 0) \<and>
                  length (filter (\<lambda>c. length (i2c_data c) = 17) (calls_since t1 t2)) = 12 \<and>
                  g_pwm_buffer t2 ! 0 ! 0 = 128 \<and>
                  i2c_data (calls_since t1 t2 ! 2) ! 1 = 128))"
proof (intro conjI impI allI)
  show "(fst (is31fl3733_write_pwm_buffer bus addr pwm_buffer s),
          i2c_log (snd (is31fl3733_write_pwm_buffer bus addr pwm_buffer s))) =
           transmit_fail_fast bus (i2c_log s) (pwm_chunks addr pwm_buffer)"
    using write_pwm_buffer_trace(1,2)[OF assms, of bus addr] by (simp add: prod_eq_iff)
  show len: "length (pwm_chunks addr pwm_buffer) = 12" by (simp add: pwm_chunks_def)
  show "pwm_chunks addr pwm_buffer ! k =
          i2c_frame addr (of_nat (16 * k) # take 16 (drop (16 * k) pwm_buffer))" if "k < 12" for k
    using that by (rule pwm_chunks_nth)
  show "length (i2c_data (pwm_chunks addr pwm_buffer ! k)) = 17" if "k < 12" for k
    using that assms(2) by (simp add: pwm_chunks_nth i2c_frame_def)
  show "\<exists>new. i2c_log (snd (is31fl3733_write_pwm_buffer bus addr pwm_buffer s)) = i2c_log s @ new \<and>
                map fst new = take (length new) (pwm_chunks addr pwm_buffer) \<and> length new \<le> 12 \<and>
                (fst (is31fl3733_write_pwm_buffer bus addr pwm_buffer s) \<longrightarrow>
                   length new = 12 \<and> list_all (\<lambda>e. snd e = 0) new) \<and>
                (\<not> fst (is31fl3733_write_pwm_buffer bus addr pwm_buffer s) \<longrightarrow>
                   new \<noteq> [] \<and> snd (last new) \<noteq> 0 \<and> list_all (\<lambda>e. snd e = 0) (butlast new))"
    using transmit_fail_fast_calls[of bus "i2c_log s" "pwm_chunks addr pwm_buffer"]
    unfolding write_pwm_buffer_trace(1,2)[OF assms, of bus addr] len .
next
  assume a: "board_ok b \<and> state_wf b t \<and> 0 < LED_MATRIX_LED_COUNT b \<and>
          g_is31_leds b ! 0 = \<lparr>driver = 0, v = 0\<rparr> \<and> (\<forall>tr c. bus tr c = 0) \<and>
          is31fl3733_set_value b 0 128 t = Inr t1 \<and> g_pwm_buffer_update_required t1 ! 0"
  then have wf1: "state_wf b t1" using set_value_wf by blast
  have dc: "unat (0 :: u8) < IS31FL3733_DRIVER_COUNT b" using a by (simp add: board_ok_def)
  have u0: "unat (0 :: u8) = 0" by simp
  have f: "g_pwm_buffer_update_required t1 ! unat (0 :: u8)" using a by simp
  have ok: "\<forall>tr c. bus tr c = 0" using a by blast
  have stored: "g_pwm_buffer t1 ! 0 ! 0 = 128"
    using set_value_slot[of b t 0 128] a by auto
  define buf where "buf = g_pwm_buffer t1 ! 0"
  have len: "length buf = 192" unfolding buf_def using state_wf_row[OF wf1, of 0] dc by simp
  obtain t2 where t2: "is31fl3733_update_pwm_buffers b bus addr 0 t1 = Inr t2"
    "i2c_log t2 = i2c_log t1 @ map (\<lambda>c. (c, 0))
             ([register_write addr IS31FL3733_COMMANDREGISTER_WRITELOCK 0xC5,
               register_write addr IS31FL3733_COMMANDREGISTER IS31FL3733_PAGE_PWM] @
              pwm_chunks addr buf)"
    "g_pwm_buffer t2 = g_pwm_buffer t1"
    using update_pwm_buffers_always_ok[OF wf1 dc f ok, of addr] unfolding u0 buf_def by blast
  have calls: "calls_since t1 t2 =
                    [register_write addr 0xFE 0xC5, register_write addr 0xFD 0x01] @ pwm_chunks addr buf"
    by (simp add: calls_since_def t2(2) comp_def IS31FL3733_COMMANDREGISTER_WRITELOCK_def
        IS31FL3733_COMMANDREGISTER_def IS31FL3733_PAGE_PWM_def)
  have filt: "filter (\<lambda>c. length (i2c_data c) = 17) (pwm_chunks addr buf) = pwm_chunks addr buf"
    using pwm_chunks_all_17[OF len, of addr] by (simp add: list_all_iff)
  have n12: "length (filter (\<lambda>c. length (i2c_data c) = 17) (calls_since t1 t2)) = 12"
    unfolding calls by (simp add: filt) (simp add: register_write_def i2c_frame_def pwm_chunks_def)
  have first: "i2c_data (calls_since t1 t2 ! 2) ! 1 = 128"
    unfolding calls using stored len pwm_chunks_nth[of 0 addr buf]
    by (simp add: i2c_frame_def buf_def[symmetric] hd_conv_nth[symmetric] take_Suc_conv_app_nth)
  show "\<exists>t2. is31fl3733_update_pwm_buffers b bus addr 0 t1 = Inr t2 \<and>
                  take (length (i2c_log t1)) (i2c_log t2) = i2c_log t1 \<and>
                  calls_since t1 t2 =
                    [register_write addr 0xFE 0xC5, register_write addr 0xFD 0x01] @
                    pwm_chunks addr (g_pwm_buffer t1 ! 0) \<and>
                  length (filter (\<lambda>c. length (i2c_data c) = 17) (calls_since t1 t2)) = 12 \<and>
                  g_pwm_buffer t2 ! 0 ! 0 = 128 \<and>
                  i2c_data (calls_since t1 t2 ! 2) ! 1 = 128"
    using t2(1) calls n12 first stored
    by (intro exI[of _ t2]) (simp add: t2(2,3) buf_def)
qed

lemma startup_twi: "length (g_twi_transfer_buffer (startup b)) = 20"
  by (simp add: startup_def)

lemma example_set_value_dirty:
  "\<exists>t1. is31fl3733_set_value example_board 0 128 (startup example_board) = Inr t1 \<and>
        g_pwm_buffer_update_required t1 ! 0"
proof -
  have r: "0 \<le> (0 :: int)" "(0 :: int) < int (LED_MATRIX_LED_COUNT example_board)"
    by (simp_all add: example_board_def)
  show ?thesis
    unfolding set_value_in_range[OF example_board_ok r]
    by (simp add: example_board_def startup_def)
qed

theorem write_pwm_buffer_chunks_witness:
  "(\<exists>t1 t2. is31fl3733_set_value example_board 0 128 (startup example_board) = Inr t1 \<and>
        is31fl3733_update_pwm_buffers example_board bus_ok 0x50 0 t1 = Inr t2 \<and>
        calls_since t1 t2 =
          [register_write 0x50 0xFE 0xC5, register_write 0x50 0xFD 0x01] @
          pwm_chunks 0x50 (g_pwm_buffer t1 ! 0) \<and>
        length (filter (\<lambda>c. length (i2c_data c) = 17) (calls_since t1 t2)) = 12 \<and>
        g_pwm_buffer t2 ! 0 ! 0 = 128 \<and>
        i2c_data (calls_since t1 t2 ! 2) ! 1 = 128) \<and>
   \<not> fst (is31fl3733_write_pwm_buffer bus_dead 0x50 (replicate 192 0) (startup example_board)) \<and>
   i2c_log (snd (is31fl3733_write_pwm_buffer bus_dead 0x50 (replicate 192 0) (startup example_board))) =
     [(i2c_frame 0x50 (0 # replicate 16 0), - 1)] \<and>
   fst (is31fl3733_write_pwm_buffer bus_ok 0x50 (replicate 192 0) (startup example_board)) \<and>
   pwm_chunks 0x50 (replicate 192 0) ! 11 = i2c_frame 0x50 (176 # replicate 16 0)"
proof -
  have len: "length (replicate 192 (0 :: u8)) = 192" by simp
  have ok: "\<forall>tr c. bus_ok tr c = 0" by (simp add: bus_ok_def)
  note A = write_pwm_buffer_chunks[OF startup_twi[of example_board] len, where b = example_board and bus = bus_ok
      and addr = "0x50" and t = "startup example_board"]
  note B = write_pwm_buffer_chunks[OF startup_twi[of example_board] len, where b = example_board and bus = bus_dead
      and addr = "0x50" and t = "startup example_board"]
  obtain t1 where t1: "is31fl3733_set_value example_board 0 128 (startup example_board) = Inr t1"
    "g_pwm_buffer_update_required t1 ! 0"
    using example_set_value_dirty by blast
  have sc: "board_ok example_board \<and> state_wf example_board (startup example_board) \<and>
        0 < LED_MATRIX_LED_COUNT example_board \<and>
        g_is31_leds example_board ! 0 = \<lparr>driver = 0, v = 0\<rparr> \<and> (\<forall>tr c. bus_ok tr c = 0) \<and>
        is31fl3733_set_value example_board 0 128 (startup example_board) = Inr t1 \<and>
        g_pwm_buffer_update_required t1 ! 0"
    using t1 ok example_board_ok startup_wf by (simp add: example_board_def)
  have 1: "\<exists>t1 t2. is31fl3733_set_value example_board 0 128 (startup example_board) = Inr t1 \<and>
        is31fl3733_update_pwm_buffers example_board bus_ok 0x50 0 t1 = Inr t2 \<and>
        calls_since t1 t2 =
          [register_write 0x50 0xFE 0xC5, register_write 0x50 0xFD 0x01] @
          pwm_chunks 0x50 (g_pwm_buffer t1 ! 0) \<and>
        length (filter (\<lambda>c. length (i2c_data c) = 17) (calls_since t1 t2)) = 12 \<and>
        g_pwm_buffer t2 ! 0 ! 0 = 128 \<and>
        i2c_data (calls_since t1 t2 ! 2) ! 1 = 128"
    using A[where ?t1.0 = t1] sc t1(1) by blast
  have chunks: "pwm_chunks 0x50 (replicate 192 0) =
      i2c_frame 0x50 (0 # replicate 16 0) # map (pwm_chunk 0x50 (replicate 192 0)) [1..<12]"
    by (simp add: pwm_chunks_def upt_conv_Cons[of 0 12] pwm_chunk_def)
  have dead: "transmit_fail_fast bus_dead [] (pwm_chunks 0x50 (replicate 192 0)) =
      (False, [(i2c_frame 0x50 (0 # replicate 16 0), - 1)])"
    unfolding chunks by (simp add: bus_dead_def append_call_def)
  have l0: "i2c_log (startup example_board) = []" by (simp add: startup_def)
  have 2: "\<not> fst (is31fl3733_write_pwm_buffer bus_dead 0x50 (replicate 192 0) (startup example_board)) \<and>
     i2c_log (snd (is31fl3733_write_pwm_buffer bus_dead 0x50 (replicate 192 0) (startup example_board))) =
       [(i2c_frame 0x50 (0 # replicate 16 0), - 1)]"
    using B[THEN conjunct1] unfolding l0 dead by simp
  have 3: "fst (is31fl3733_write_pwm_buffer bus_ok 0x50 (replicate 192 0) (startup example_board))"
    using A[THEN conjunct1] transmit_fail_fast_always_ok[OF ok, of "i2c_log (startup example_board)"]
    by (simp add: prod_eq_iff)
  have 4: "pwm_chunks 0x50 (replicate 192 0) ! 11 = i2c_frame 0x50 (176 # replicate 16 0)"
    using A[THEN conjunct2, THEN conjunct2, THEN conjunct1] by simp
  show ?thesis using 1 2 3 4 by (intro conjI) blast+
qed

subsection \<open>The dirty flags and the confirmed pages\<close>

















lemma frames_to_other:
  "list_all (\<lambda>e. i2c_address (fst e) = push_bit 1 addr') new \<Longrightarrow>
   (push_bit 1 addr' :: u8) \<noteq> push_bit 1 addr \<Longrightarrow> frames_to addr new = []"
  by (simp add: frames_to_def list_all_iff filter_empty_conv)


lemma all_acknowledged_eq:
  "map fst new = cs \<Longrightarrow> list_all (\<lambda>e. snd e = 0) new \<Longrightarrow> new = map (\<lambda>c. (c, 0)) cs"
  by (induction new arbitrary: cs) auto


lemma pwm_flush_calls:
  assumes "length buf = 192"
  shows "list_all (\<lambda>c. i2c_address c = push_bit 1 addr \<and>
                     (length (i2c_data c) \<noteq> 2 \<or> unat (hd (i2c_data c)) \<noteq> 23))
           ([register_write addr IS31FL3733_COMMANDREGISTER_WRITELOCK 0xC5,
             register_write addr IS31FL3733_COMMANDREGISTER IS31FL3733_PAGE_PWM] @ pwm_chunks addr buf)"
  using assms
  by (simp add: list_all_iff register_write_def i2c_frame_def pwm_chunks_def pwm_chunk_def
      IS31FL3733_COMMANDREGISTER_WRITELOCK_def IS31FL3733_COMMANDREGISTER_def)


lemma list_all_take: "list_all P xs \<Longrightarrow> list_all P (take n xs)"
  by (auto simp add: list_all_iff dest: in_set_takeD)

lemma list_all_fst:
  "map fst new = cs \<Longrightarrow> list_all P cs \<Longrightarrow> list_all (\<lambda>e. P (fst e)) new"
  by (induction new arbitrary: cs) auto

lemma update_pwm_buffers_frames:
  assumes "state_wf b s" "unat index < IS31FL3733_DRIVER_COUNT b"
    "g_pwm_buffer_update_required s ! unat index"
  shows "\<exists>s' new. is31fl3733_update_pwm_buffers b bus addr index s = Inr s' \<and>
           i2c_log s' = i2c_log s @ new \<and>
           list_all (\<lambda>e. i2c_address (fst e) = push_bit 1 addr \<and>
                         (length (i2c_data (fst e)) \<noteq> 2 \<or> unat (hd (i2c_data (fst e))) \<noteq> 23)) new \<and>
           (list_all (\<lambda>e. snd e = 0) new \<longrightarrow>
              new = map (\<lambda>c. (c, 0))
                ([register_write addr IS31FL3733_COMMANDREGISTER_WRITELOCK 0xC5,
                  register_write addr IS31FL3733_COMMANDREGISTER IS31FL3733_PAGE_PWM] @
                 pwm_chunks addr (g_pwm_buffer s ! unat index))) \<and>
           g_pwm_buffer s' = g_pwm_buffer s \<and>
           g_led_control_registers s' = g_led_control_registers s \<and>
           g_pwm_buffer_update_required s' = (g_pwm_buffer_update_required s)[unat index := False] \<and>
           (g_led_control_registers_update_required s' = g_led_control_registers_update_required s \<or>
            g_led_control_registers_update_required s' =
              (g_led_control_registers_update_required s)[unat index := True]) \<and>
           length (g_twi_transfer_buffer s') = 20"
proof -
  define s2 where "s2 = pwm_page_selected bus addr s"
  define buf where "buf = g_pwm_buffer s ! unat index"
  define pre where "pre = [register_write addr IS31FL3733_COMMANDREGISTER_WRITELOCK 0xC5,
       register_write addr IS31FL3733_COMMANDREGISTER IS31FL3733_PAGE_PWM]"
  have tw: "length (g_twi_transfer_buffer s) = 20" using assms(1) by (simp add: state_wf_def)
  have tw': "2 \<le> length (g_twi_transfer_buffer s)" using tw by simp
  have tw2: "length (g_twi_transfer_buffer s2) = 20"
    using pwm_page_selected_shadow[of s bus addr] tw by (simp add: s2_def shadow_unchanged_def)
  have len: "length buf = 192" unfolding buf_def using assms(1,2) by (rule state_wf_row)
  have "i2c_log s2 = transmit_all bus (i2c_log s) pre"
    unfolding s2_def pwm_page_selected_def pre_def using tw' by (rule page_selected_log)
  then obtain new2 where l2: "i2c_log s2 = i2c_log s @ new2" and c2: "map fst new2 = pre"
    using transmit_all_calls[of bus "i2c_log s" pre] by auto
  obtain new3 where n: "snd (transmit_fail_fast bus (i2c_log s2) (pwm_chunks addr buf)) = i2c_log s2 @ new3"
    "map fst new3 = take (length new3) (pwm_chunks addr buf)"
    "fst (transmit_fail_fast bus (i2c_log s2) (pwm_chunks addr buf)) \<longrightarrow>
       length new3 = length (pwm_chunks addr buf)"
    "\<not> fst (transmit_fail_fast bus (i2c_log s2) (pwm_chunks addr buf)) \<longrightarrow> new3 \<noteq> [] \<and> snd (last new3) \<noteq> 0"
    using transmit_fail_fast_calls[of bus "i2c_log s2" "pwm_chunks addr buf"] by blast
  obtain s' where s': "is31fl3733_update_pwm_buffers b bus addr index s = Inr s'"
    "g_led_control_registers_update_required s' =
             (if fst (is31fl3733_write_pwm_buffer bus addr buf s2)
              then g_led_control_registers_update_required s
              else (g_led_control_registers_update_required s)[unat index := True])"
    "g_pwm_buffer s' = g_pwm_buffer s"
    "g_led_control_registers s' = g_led_control_registers s"
    "g_pwm_buffer_update_required s' = (g_pwm_buffer_update_required s)[unat index := False]"
    "length (g_twi_transfer_buffer s') = 20"
    "i2c_log s' = i2c_log (snd (is31fl3733_write_pwm_buffer bus addr buf s2))"
    using update_pwm_buffers_dirty[OF assms, of bus addr] unfolding s2_def buf_def by blast
  have log: "i2c_log s' = i2c_log s @ new2 @ new3"
    using s'(7) write_pwm_buffer_trace(2)[OF tw2 len, of bus addr] n(1) l2 by simp
  have calls: "map fst (new2 @ new3) = take (2 + length new3) (pre @ pwm_chunks addr buf)"
    using c2 n(2) by (simp add: pre_def)
  have props: "list_all (\<lambda>e. i2c_address (fst e) = push_bit 1 addr \<and>
                         (length (i2c_data (fst e)) \<noteq> 2 \<or> unat (hd (i2c_data (fst e))) \<noteq> 23)) (new2 @ new3)"
    using list_all_fst[OF calls list_all_take[OF pwm_flush_calls[OF len, of addr, folded pre_def]]] .
  have acked: "new2 @ new3 = map (\<lambda>c. (c, 0)) (pre @ pwm_chunks addr buf)"
    if a: "list_all (\<lambda>e. snd e = 0) (new2 @ new3)"
  proof -
    have "fst (transmit_fail_fast bus (i2c_log s2) (pwm_chunks addr buf))"
    proof (rule ccontr)
      assume "\<not> fst (transmit_fail_fast bus (i2c_log s2) (pwm_chunks addr buf))"
      then have "new3 \<noteq> []" "snd (last new3) \<noteq> 0" using n(4) by simp_all
      moreover have "last new3 \<in> set new3" using \<open>new3 \<noteq> []\<close> by simp
      ultimately show False using a by (auto simp add: list_all_iff)
    qed
    then have "length new3 = length (pwm_chunks addr buf)" using n(3) by simp
    then have "map fst (new2 @ new3) = pre @ pwm_chunks addr buf" using c2 n(2) by simp
    then show ?thesis using a by (rule all_acknowledged_eq)
  qed
  show ?thesis
    using s'(1) log props acked s'(3,4,5,6) s'(2)
    unfolding pre_def buf_def
    by (intro exI[of _ s'] exI[of _ "new2 @ new3"]) auto
qed



























text \<open>
  The address matters: the same flush of device 0 sent to the address of device 1, on a bus that
  acknowledges every call, confirms nothing for device 0 and leaves its PWM page not conservative.
\<close>

lemma misaddressed_flush_confirms_nothing:
  "\<not> conservative_after example_board example_addresses bus_ok
        [Set_value 0 128, Update_pwm_buffers 0x53 0] (startup example_board)"
proof -
  define t1 where "t1 = (startup example_board)
     \<lparr>g_pwm_buffer := (g_pwm_buffer (startup example_board))
         [0 := (g_pwm_buffer (startup example_board) ! 0)[0 := 128]],
      g_pwm_buffer_update_required := (g_pwm_buffer_update_required (startup example_board))[0 := True]\<rparr>"
  have r: "0 \<le> (0 :: int)" "(0 :: int) < int (LED_MATRIX_LED_COUNT example_board)"
    by (simp_all add: example_board_def)
  have set: "is31fl3733_set_value example_board 0 128 (startup example_board) = Inr t1"
    unfolding set_value_in_range[OF example_board_ok r] t1_def
    by (simp add: example_board_def startup_def)
  have wf1: "state_wf example_board t1" using startup_wf set by (rule set_value_wf)
  have d: "unat (0 :: u8) < IS31FL3733_DRIVER_COUNT example_board" by (simp add: example_board_def)
  have u0: "unat (0 :: u8) = 0" by simp
  have f: "g_pwm_buffer_update_required t1 ! unat (0 :: u8)"
    by (simp add: t1_def startup_def example_board_def)
  have v: "g_pwm_buffer t1 ! 0 ! 0 = 128"
    by (simp add: t1_def startup_def example_board_def)
  have l1: "i2c_log t1 = []" by (simp add: t1_def startup_def)
  obtain t2 new where t2: "is31fl3733_update_pwm_buffers example_board bus_ok 0x53 0 t1 = Inr t2"
    "i2c_log t2 = i2c_log t1 @ new"
    "list_all (\<lambda>e. i2c_address (fst e) = push_bit 1 0x53 \<and>
                         (length (i2c_data (fst e)) \<noteq> 2 \<or> unat (hd (i2c_data (fst e))) \<noteq> 23)) new"
    "g_pwm_buffer t2 = g_pwm_buffer t1"
    "g_pwm_buffer_update_required t2 = (g_pwm_buffer_update_required t1)[0 := False]"
    using update_pwm_buffers_frames[OF wf1 d f, of bus_ok "0x53"] unfolding u0 by blast
  have "frames_to (example_addresses ! 0) new = []"
    using t2(3) by (intro frames_to_other[of "0x53"]) (simp_all add: list_all_iff example_addresses_def)
  then have conf: "confirmed_pwm (confirmed_at (example_addresses ! 0) (i2c_log t2)) = replicate 192 0"
    by (simp add: t2(2) l1 confirmed_at_def blank_def)
  have clear: "\<not> g_pwm_buffer_update_required t2 ! 0"
    by (simp add: t2(5) t1_def startup_def example_board_def)
  have run: "perform_all example_board bus_ok [Set_value 0 128, Update_pwm_buffers 0x53 0]
        (startup example_board) = Inr t2"
    using set t2(1) by simp
  have differ: "g_pwm_buffer t2 ! 0 \<noteq> confirmed_pwm (confirmed_at (example_addresses ! 0) (i2c_log t2))"
  proof
    assume "g_pwm_buffer t2 ! 0 = confirmed_pwm (confirmed_at (example_addresses ! 0) (i2c_log t2))"
    then have "g_pwm_buffer t1 ! 0 ! 0 = replicate 192 (0 :: u8) ! 0"
      by (simp add: t2(4) conf)
    then show False unfolding v by simp
  qed
  have "\<not> page_conservative example_addresses Pwm_page 0 t2"
    using differ clear by simp
  then have "\<not> dirty_conservative example_board example_addresses t2"
    by (simp add: dirty_conservative_def example_board_def upt_conv_Cons)
  then show ?thesis unfolding conservative_after_def run by simp
qed



end
